theory Spec2Isabelle
  imports Complex_Main "HOL-Library.Word"
begin

section \<open>The clipboard manager of copyous (lib/misc/clipboard.ts)\<close>

text \<open>
  The embedding follows \<^verbatim>\<open>ClipboardManager\<close>: the tagged union
  \<^verbatim>\<open>ClipboardContent\<close> is a datatype, the fields of the class that the methods
  mutate are a record that every method takes and returns, and whatever the methods
  call outside the file (GLib, Gio, St.Clipboard, Intl.Segmenter, highlight.js,
  \<^verbatim>\<open>Color.parse\<close>, the entry tracker) is a field of the record \<open>externals\<close>,
  a function that the theorems quantify over. A JavaScript string is a
  \<open>string\<close>, one \<open>char\<close> for one UTF-16 code unit below 256, so that
  \<open>length\<close> is \<^verbatim>\<open>.length\<close>. An exception is the \<open>Inl\<close> of a sum.
\<close>

subsection \<open>Data\<close>

datatype ContentType = Text | Image | File

text \<open>
  Modelled from the spec: \<^verbatim>\<open>FileOperation\<close> is declared in lib/misc/db.ts; its two
  members are compared with the first line of a copied file list, the literal markers
  \<^verbatim>\<open>copy\<close> and \<^verbatim>\<open>cut\<close>.
\<close>

datatype FileOperation = Copy | Cut

fun operation_marker :: "FileOperation \<Rightarrow> string" where
  "operation_marker Copy = ''copy''"
| "operation_marker Cut = ''cut''"

type_synonym bytes = "8 word list"

datatype ClipboardContent =
    TextContent string
  | ImageContent string bytes string
  | FileContent "string list" FileOperation

fun content_type :: "ClipboardContent \<Rightarrow> ContentType" where
  "content_type (TextContent t) = ContentType.Text"
| "content_type (ImageContent m d c) = ContentType.Image"
| "content_type (FileContent ps oper) = ContentType.File"

datatype ItemType = Text | Code | Link | Character | Color | Image | File | Files

datatype Metadata =
    Language (language_id: string) (language_name: string)
  | Operation FileOperation

record ClipboardEntry =
  entry_type :: ItemType
  entry_content :: string
  entry_metadata :: "Metadata option"
  datetime :: nat

datatype error = URIError | GError | IOError

record HighlightResult =
  language :: "string option"
  relevance :: int

text \<open>
  highlight.js as the classifier uses it: \<^verbatim>\<open>highlightAuto(slice)\<close>, and the
  \<^verbatim>\<open>name\<close> of \<^verbatim>\<open>getLanguage(id)\<close>, \<open>None\<close> when the language or its name is
  undefined. Relevance scores are sums of integer weights.
\<close>

record Hljs =
  highlightAuto :: "string \<Rightarrow> HighlightResult"
  getLanguage_name :: "string \<Rightarrow> string option"

record externals =
  compute_checksum_for_string :: "string \<Rightarrow> nat \<Rightarrow> string option"
  compute_checksum_for_bytes :: "bytes \<Rightarrow> string option"
  decodeURI :: "string \<Rightarrow> error + string"
  text_encode :: "string \<Rightarrow> bytes"
  text_decode :: "bytes \<Rightarrow> string"
  uri_is_valid :: "string \<Rightarrow> error + bool"
  segmenter :: "string \<Rightarrow> string list"
  color_parse :: "string \<Rightarrow> bool"
  hljs :: "Hljs option"
  store_image :: "string \<Rightarrow> bytes \<Rightarrow> error + string"
  tracker_insert :: "ItemType \<Rightarrow> string \<Rightarrow> Metadata option \<Rightarrow> error + ClipboardEntry option"
  load_contents :: "string \<Rightarrow> error + bytes"
  guess_mime_type :: "string \<Rightarrow> bytes \<Rightarrow> string option"
  now_utc :: nat

subsection \<open>String primitives of JavaScript\<close>

fun join_nl :: "string list \<Rightarrow> string" where
  "join_nl [] = []"
| "join_nl [x] = x"
| "join_nl (x # y # ys) = x @ CHR 0x0A # join_nl (y # ys)"

fun split_nl_acc :: "string \<Rightarrow> string \<Rightarrow> string list" where
  "split_nl_acc acc [] = [rev acc]"
| "split_nl_acc acc (c # cs) =
     (if c = CHR 0x0A then rev acc # split_nl_acc [] cs else split_nl_acc (c # acc) cs)"

definition split_nl :: "string \<Rightarrow> string list" where
  "split_nl s = split_nl_acc [] s"

definition is_white_space :: "char \<Rightarrow> bool" where
  "is_white_space c \<longleftrightarrow>
     c = CHR 0x09 \<or> c = CHR 0x0A \<or> c = CHR 0x0B \<or> c = CHR 0x0C \<or> c = CHR 0x0D
     \<or> c = CHR 0x20 \<or> c = CHR 0xA0"

definition trim :: "string \<Rightarrow> string" where
  "trim s = rev (dropWhile is_white_space (rev (dropWhile is_white_space s)))"

definition startsWith :: "string \<Rightarrow> string \<Rightarrow> bool" where
  "startsWith s p \<longleftrightarrow> take (length p) s = p"

subsection \<open>contentChecksum\<close>

fun decode_paths :: "externals \<Rightarrow> string list \<Rightarrow> error + string list" where
  "decode_paths ext [] = Inr []"
| "decode_paths ext (f # fs) =
     (case decodeURI ext f of
        Inl e \<Rightarrow> Inl e
      | Inr d \<Rightarrow>
          (case decode_paths ext fs of
             Inl e \<Rightarrow> Inl e
           | Inr ds \<Rightarrow> Inr (drop (length ''file://'') d # ds)))"

fun contentChecksum :: "externals \<Rightarrow> ClipboardContent \<Rightarrow> error + string option" where
  "contentChecksum ext (TextContent t) = Inr (compute_checksum_for_string ext t (length t))"
| "contentChecksum ext (ImageContent m d c) = Inr (Some c)"
| "contentChecksum ext (FileContent ps oper) =
     (case decode_paths ext ps of
        Inl e \<Rightarrow> Inl e
      | Inr ds \<Rightarrow> Inr (compute_checksum_for_string ext (join_nl ds) (length (join_nl ds))))"

subsection \<open>getContent\<close>

definition MimeTypes_Text :: "string list" where
  "MimeTypes_Text = [''text/plain'', ''text/plain;charset=utf-8'', ''STRING'', ''UTF8_STRING'']"

definition MimeTypes_Image :: "string list" where
  "MimeTypes_Image = [''image/png'', ''image/jxl'', ''image/webp'', ''image/avif'', ''image/jpeg'']"

definition MimeTypes_File :: "string list" where
  "MimeTypes_File = [''x-special-gnome-copied-files'', ''text/uri-list'']"

definition MimeTypes_Sensitive :: "string list" where
  "MimeTypes_Sensitive = [''x-kde-passwordManagerHint'']"

text \<open>
  What St.Clipboard answers during one ownership change: the advertised MIME types,
  the bytes \<^verbatim>\<open>get_content\<close> hands to its callback for a MIME type, and the text
  \<^verbatim>\<open>get_text\<close> hands to its callback (\<open>None\<close> for null).
\<close>

record Selection =
  get_mimetypes :: "string list"
  get_content :: "string \<Rightarrow> bytes"
  get_text :: "string option"

definition array_includes :: "'a list \<Rightarrow> 'a \<Rightarrow> bool" where
  "array_includes xs x = list_ex (\<lambda>y. y = x) xs"

definition file_list :: "string \<Rightarrow> ClipboardContent" where
  "file_list txt =
     (let files = filter (\<lambda>f. length f \<noteq> 0) (map trim (split_nl txt)) in
      case files of
        [] \<Rightarrow> FileContent files Copy
      | f # rest \<Rightarrow>
          if f = operation_marker Copy then FileContent rest Copy
          else if f = operation_marker Cut then FileContent rest Cut
          else FileContent files Copy)"

definition getContent :: "externals \<Rightarrow> Selection \<Rightarrow> ClipboardContent option" where
  "getContent ext sel =
     (let mimeTypes = get_mimetypes sel in
      if list_ex (array_includes mimeTypes) MimeTypes_Sensitive then None
      else
        case find (array_includes mimeTypes) MimeTypes_Image of
          Some imageMimeType \<Rightarrow>
            (let bytes = get_content sel imageMimeType in
             if length bytes > 0 then
               (case compute_checksum_for_bytes ext bytes of
                  None \<Rightarrow> None
                | Some checksum \<Rightarrow>
                    if checksum = [] then None
                    else Some (ImageContent imageMimeType bytes checksum))
             else None)
        | None \<Rightarrow>
            (case find (array_includes mimeTypes) MimeTypes_File of
               Some fileMimeType \<Rightarrow>
                 (let txt = trim (text_decode ext (get_content sel fileMimeType)) in
                  if txt \<noteq> [] then Some (file_list txt) else None)
             | None \<Rightarrow>
                 (case find (array_includes mimeTypes) MimeTypes_Text of
                    Some textMimeType \<Rightarrow>
                      (case get_text sel of
                         None \<Rightarrow> None
                       | Some txt \<Rightarrow>
                           if txt \<noteq> [] \<and> trim txt \<noteq> [] then Some (TextContent txt) else None)
                  | None \<Rightarrow> None)))"

subsection \<open>convertContent\<close>

text \<open>
  Gio.Settings and the two queries of the desktop that the manager polls where it uses
  them: the class of the focused window (\<open>None\<close> without a focused window) and whether
  the purpose of the focused input is a terminal.
\<close>

record settings =
  sync_primary :: bool
  paste_on_copy :: bool
  update_date_on_copy :: bool
  incognito :: bool
  wmclass_exclusions :: "string list"
  max_characters :: int
  focus_window :: "string option"
  purpose_terminal :: bool

fun iterator_next :: "nat \<Rightarrow> 'a list \<Rightarrow> 'a list" where
  "iterator_next 0 it = it"
| "iterator_next (Suc i) it = iterator_next i (tl it)"

definition is_link :: "externals \<Rightarrow> string \<Rightarrow> bool" where
  "is_link ext trimmed =
     (if startsWith trimmed ''http'' then
        (case uri_is_valid ext trimmed of Inl e \<Rightarrow> False | Inr b \<Rightarrow> b)
      else False)"

definition is_character :: "externals \<Rightarrow> settings \<Rightarrow> string \<Rightarrow> bool" where
  "is_character ext cfg trimmed =
     (let iterator = segmenter ext trimmed;
          maxCharacters = max_characters cfg
      in iterator_next (nat maxCharacters) iterator = [])"

definition normalized_relevance :: "string \<Rightarrow> HighlightResult \<Rightarrow> rat" where
  "normalized_relevance sliced r =
     (let n = max 1 (of_nat (length sliced) / 100) in of_int (relevance r) / n)"

definition detect_code :: "externals \<Rightarrow> string \<Rightarrow> (Hljs \<times> string) option" where
  "detect_code ext trimmed =
     (let sliced = take 10000 trimmed in
      case hljs ext of
        None \<Rightarrow> None
      | Some h \<Rightarrow>
          (let highlightResult = highlightAuto h sliced in
           case language highlightResult of
             None \<Rightarrow> None
           | Some ident \<Rightarrow>
               if ident \<noteq> [] \<and> normalized_relevance sliced highlightResult \<ge> 3
               then Some (h, ident) else None))"

definition display_name :: "string \<Rightarrow> string \<Rightarrow> string" where
  "display_name ident name =
     (if int (length ident) < int (length name) - 3 then take 1 ident @ drop 1 ident else name)"

definition code_metadata :: "Hljs \<Rightarrow> string \<Rightarrow> Metadata" where
  "code_metadata h ident =
     (let name = (case getLanguage_name h ident of None \<Rightarrow> ident | Some n \<Rightarrow> n)
      in Language ident (display_name ident name))"

fun convertContent ::
  "externals \<Rightarrow> settings \<Rightarrow> ClipboardContent \<Rightarrow> (ItemType \<times> string \<times> Metadata option) option"
where
  "convertContent ext cfg (TextContent txt) =
     (let trimmed = trim txt in
      if is_link ext trimmed then Some (ItemType.Link, txt, None)
      else if is_character ext cfg trimmed then Some (ItemType.Character, txt, None)
      else if color_parse ext trimmed then Some (ItemType.Color, txt, None)
      else
        case detect_code ext trimmed of
          Some (h, ident) \<Rightarrow> Some (ItemType.Code, txt, Some (code_metadata h ident))
        | None \<Rightarrow> Some (ItemType.Text, txt, None))"
| "convertContent ext cfg (ImageContent m d c) =
     (case store_image ext c d of
        Inl e \<Rightarrow> None
      | Inr uri \<Rightarrow> Some (ItemType.Image, uri, None))"
| "convertContent ext cfg (FileContent ps oper) =
     (case ps of
        [p] \<Rightarrow> Some (ItemType.File, p, Some (Operation oper))
      | _ \<Rightarrow> Some (ItemType.Files, join_nl ps, Some (Operation oper)))"

subsection \<open>The manager's state\<close>

datatype ClipboardType = CLIPBOARD | PRIMARY

datatype clipboard_write =
    Set_text ClipboardType string
  | Set_content ClipboardType string bytes

datatype key = KEY_Control_L | KEY_Shift_L | KEY_V | KEY_v

datatype key_event = Press key | Release key

datatype signal =
    Clipboard_signal ClipboardEntry
  | Text_signal string
  | Image_signal bytes int int

datatype SelectionType = SELECTION_PRIMARY | SELECTION_CLIPBOARD | SELECTION_DND

text \<open>
  The fields \<^verbatim>\<open>prevClipboard\<close> and \<^verbatim>\<open>pasteSignalId\<close> of the class, and the effects
  of its methods as logs in the order of the calls: the writes to St.Clipboard, the
  sources pending in the GLib main loop (\<^verbatim>\<open>timeout_add\<close> returns the next id,
  \<^verbatim>\<open>source_remove\<close> takes one out), the key events of the virtual keyboard, the
  calls of \<^verbatim>\<open>tracker.insert\<close>, the emitted signals and the logged errors.
\<close>

record manager =
  prevClipboard :: "(ContentType \<times> string) option"
  pasteSignalId :: int
  sources :: "nat list"
  last_source :: nat
  clipboard_writes :: "clipboard_write list"
  key_events :: "key_event list"
  tracker_inserts :: "(ItemType \<times> string \<times> Metadata option) list"
  signals :: "signal list"
  logged :: "error list"

definition new_manager :: manager where
  "new_manager =
     \<lparr>prevClipboard = None, pasteSignalId = - 1, sources = [], last_source = 0,
      clipboard_writes = [], key_events = [], tracker_inserts = [], signals = [],
      logged = []\<rparr>"

definition source_remove :: "int \<Rightarrow> manager \<Rightarrow> manager" where
  "source_remove ident m = m\<lparr>sources := filter (\<lambda>s. int s \<noteq> ident) (sources m)\<rparr>"

definition timeout_add :: "manager \<Rightarrow> nat \<times> manager" where
  "timeout_add m =
     (let ident = Suc (last_source m)
      in (ident, m\<lparr>sources := sources m @ [ident], last_source := ident\<rparr>))"

subsection \<open>copyContent, pasteContent and the paste timeout\<close>

definition copyContent :: "externals \<Rightarrow> settings \<Rightarrow> ClipboardContent \<Rightarrow> manager \<Rightarrow> error + manager" where
  "copyContent ext cfg content m =
     (case contentChecksum ext content of
        Inl e \<Rightarrow> Inl e
      | Inr None \<Rightarrow> Inr m
      | Inr (Some checksum) \<Rightarrow>
          if checksum = [] then Inr m
          else
            (let m1 = m\<lparr>prevClipboard := Some (content_type content, checksum)\<rparr> in
             case content of
               TextContent txt \<Rightarrow>
                 Inr (m1\<lparr>clipboard_writes := clipboard_writes m1 @
                        (Set_text CLIPBOARD txt #
                         (if sync_primary cfg then [Set_text PRIMARY txt] else []))\<rparr>)
             | ImageContent mt d c \<Rightarrow>
                 Inr (m1\<lparr>clipboard_writes := clipboard_writes m1 @ [Set_content CLIPBOARD mt d]\<rparr>)
             | FileContent ps oper \<Rightarrow>
                 (let s = operation_marker Copy @ CHR 0x0A # join_nl ps;
                      bytes = text_encode ext s
                  in Inr (m1\<lparr>clipboard_writes := clipboard_writes m1 @
                            [Set_content CLIPBOARD (hd MimeTypes_File) bytes]\<rparr>))))"

definition pasteContent :: "externals \<Rightarrow> settings \<Rightarrow> ClipboardContent \<Rightarrow> manager \<Rightarrow> error + manager" where
  "pasteContent ext cfg content m =
     (case copyContent ext cfg content m of
        Inl e \<Rightarrow> Inl e
      | Inr m1 \<Rightarrow>
          if \<not> paste_on_copy cfg then Inr m1
          else
            (let m2 = (if pasteSignalId m1 \<ge> 0 then source_remove (pasteSignalId m1) m1 else m1);
                 (ident, m3) = timeout_add m2
             in Inr (m3\<lparr>pasteSignalId := int ident\<rparr>)))"

definition paste_keys :: "bool \<Rightarrow> key_event list" where
  "paste_keys terminal =
     (if terminal then
        [Press KEY_Control_L, Press KEY_Shift_L, Press KEY_V,
         Release KEY_V, Release KEY_Shift_L, Release KEY_Control_L]
      else [Press KEY_Control_L, Press KEY_v, Release KEY_v, Release KEY_Control_L])"

text \<open>
  The main loop dispatching the source \<open>ident\<close>: the callback given to
  \<^verbatim>\<open>timeout_add\<close> presses the keys, resets \<^verbatim>\<open>pasteSignalId\<close> and returns
  \<^verbatim>\<open>SOURCE_REMOVE\<close>. A source that is not pending is not dispatched.
\<close>

definition dispatch :: "settings \<Rightarrow> nat \<Rightarrow> manager \<Rightarrow> manager" where
  "dispatch cfg ident m =
     (if array_includes (sources m) ident then
        m\<lparr>key_events := key_events m @ paste_keys (purpose_terminal cfg),
          pasteSignalId := - 1,
          sources := filter (\<lambda>s. s \<noteq> ident) (sources m)\<rparr>
      else m)"

fun dispatch_all :: "settings \<Rightarrow> nat list \<Rightarrow> manager \<Rightarrow> manager" where
  "dispatch_all cfg [] m = m"
| "dispatch_all cfg (i # is) m = dispatch_all cfg is (dispatch cfg i m)"

definition destroy :: "manager \<Rightarrow> manager" where
  "destroy m =
     (let m1 = (if pasteSignalId m \<ge> 0 then source_remove (pasteSignalId m) m else m)
      in m1\<lparr>pasteSignalId := - 1\<rparr>)"

definition copyText :: "externals \<Rightarrow> settings \<Rightarrow> string \<Rightarrow> manager \<Rightarrow> error + manager" where
  "copyText ext cfg s m =
     (case copyContent ext cfg (TextContent s) m of
        Inl e \<Rightarrow> Inl e
      | Inr m1 \<Rightarrow> Inr (m1\<lparr>signals := signals m1 @ [Text_signal s]\<rparr>))"

definition copyPng :: "externals \<Rightarrow> settings \<Rightarrow> bytes \<Rightarrow> int \<Rightarrow> int \<Rightarrow> manager \<Rightarrow> error + manager" where
  "copyPng ext cfg d width height m =
     (case compute_checksum_for_bytes ext d of
        None \<Rightarrow> Inr m
      | Some checksum \<Rightarrow>
          if checksum = [] then Inr m
          else
            case copyContent ext cfg (ImageContent ''image/png'' d checksum) m of
              Inl e \<Rightarrow> Inl e
            | Inr m1 \<Rightarrow> Inr (m1\<lparr>signals := signals m1 @ [Image_signal d width height]\<rparr>))"

subsection \<open>pasteEntry\<close>

definition pasteEntry ::
  "externals \<Rightarrow> settings \<Rightarrow> ClipboardEntry \<Rightarrow> manager \<Rightarrow> ClipboardEntry \<times> (error + manager)"
where
  "pasteEntry ext cfg entry0 m =
     (let entry = (if update_date_on_copy cfg then entry0\<lparr>datetime := now_utc ext\<rparr> else entry0) in
      (entry,
       case entry_type entry of
         ItemType.Image \<Rightarrow>
           (case load_contents ext (entry_content entry) of
              Inl e \<Rightarrow> Inr m
            | Inr contents \<Rightarrow>
                (case guess_mime_type ext (entry_content entry) contents of
                   None \<Rightarrow> Inr m
                 | Some mimetype \<Rightarrow>
                     if mimetype = [] then Inr m
                     else
                       case pasteContent ext cfg (ImageContent mimetype contents []) m of
                         Inl e \<Rightarrow> Inr m
                       | Inr m1 \<Rightarrow> Inr m1))
       | ItemType.File \<Rightarrow>
           pasteContent ext cfg (FileContent (split_nl (entry_content entry)) Copy) m
       | ItemType.Files \<Rightarrow>
           pasteContent ext cfg (FileContent (split_nl (entry_content entry)) Copy) m
       | _ \<Rightarrow> pasteContent ext cfg (TextContent (entry_content entry)) m))"

subsection \<open>shouldSave and ownerChanged\<close>

definition shouldSave :: "settings \<Rightarrow> bool" where
  "shouldSave cfg =
     (case focus_window cfg of
        Some wm_class \<Rightarrow>
          if array_includes (wmclass_exclusions cfg) wm_class then False else \<not> incognito cfg
      | None \<Rightarrow> \<not> incognito cfg)"

definition is_duplicate :: "manager \<Rightarrow> ClipboardContent \<Rightarrow> string \<Rightarrow> bool" where
  "is_duplicate m content checksum =
     (case prevClipboard m of
        None \<Rightarrow> False
      | Some (type, prevChecksum) \<Rightarrow>
          if type = content_type content \<and> prevChecksum = checksum then True
          else if type = ContentType.File \<and> content_type content = ContentType.Text
                  \<and> prevChecksum = checksum then True
          else False)"

text \<open>
  One ownership change, run to its end before the next one: the promise that
  \<^verbatim>\<open>getContent\<close> returns is awaited first, and from the checksum to the assignment
  of \<^verbatim>\<open>prevClipboard\<close> the handler does not yield. An exception inside the handler
  is logged.
\<close>

definition ownerChanged ::
  "externals \<Rightarrow> settings \<Rightarrow> Selection \<Rightarrow> SelectionType \<Rightarrow> manager \<Rightarrow> manager"
where
  "ownerChanged ext cfg sel selectionType m =
     (if selectionType \<noteq> SELECTION_CLIPBOARD then m
      else
        case getContent ext sel of
          None \<Rightarrow> m
        | Some content \<Rightarrow>
            (case contentChecksum ext content of
               Inl e \<Rightarrow> m\<lparr>logged := logged m @ [e]\<rparr>
             | Inr None \<Rightarrow> m
             | Inr (Some checksum) \<Rightarrow>
                 if checksum = [] then m
                 else if is_duplicate m content checksum then m
                 else
                   (let m1 = m\<lparr>prevClipboard := Some (content_type content, checksum)\<rparr> in
                    if \<not> shouldSave cfg then m1
                    else
                      case convertContent ext cfg content of
                        None \<Rightarrow> m1
                      | Some (type, txt, metadata) \<Rightarrow>
                          (let m2 = m1\<lparr>tracker_inserts :=
                                          tracker_inserts m1 @ [(type, txt, metadata)]\<rparr>
                           in case tracker_insert ext type txt metadata of
                                Inl e \<Rightarrow> m2\<lparr>logged := logged m2 @ [e]\<rparr>
                              | Inr None \<Rightarrow> m2
                              | Inr (Some entry) \<Rightarrow>
                                  m2\<lparr>signals := signals m2 @ [Clipboard_signal entry]\<rparr>))))"

subsection \<open>The manager driven by its callers\<close>

text \<open>
  What reaches the manager between \<^verbatim>\<open>enable\<close> and \<^verbatim>\<open>disable\<close>: calls of its public
  methods, ownership changes of the selection, and the main loop dispatching a
  source. Each event carries the settings polled while it is handled. A method that
  throws leaves the fields as they were: the only exception of \<^verbatim>\<open>copyContent\<close>
  is raised by the checksum, before any assignment.
\<close>

datatype event =
    CopyContent settings ClipboardContent
  | PasteContent settings ClipboardContent
  | CopyText settings string
  | CopyPng settings bytes int int
  | PasteEntry settings ClipboardEntry
  | OwnerChanged settings Selection SelectionType
  | Dispatch settings nat
  | Destroy

definition unchanged_on_error :: "manager \<Rightarrow> error + manager \<Rightarrow> manager" where
  "unchanged_on_error m r = (case r of Inl e \<Rightarrow> m | Inr m1 \<Rightarrow> m1)"

fun step :: "externals \<Rightarrow> manager \<Rightarrow> event \<Rightarrow> manager" where
  "step ext m (CopyContent cfg content) = unchanged_on_error m (copyContent ext cfg content m)"
| "step ext m (PasteContent cfg content) = unchanged_on_error m (pasteContent ext cfg content m)"
| "step ext m (CopyText cfg s) = unchanged_on_error m (copyText ext cfg s m)"
| "step ext m (CopyPng cfg d w h) = unchanged_on_error m (copyPng ext cfg d w h m)"
| "step ext m (PasteEntry cfg entry) = unchanged_on_error m (snd (pasteEntry ext cfg entry m))"
| "step ext m (OwnerChanged cfg sel selectionType) = ownerChanged ext cfg sel selectionType m"
| "step ext m (Dispatch cfg ident) = dispatch cfg ident m"
| "step ext m Destroy = destroy m"

definition run :: "externals \<Rightarrow> event list \<Rightarrow> manager" where
  "run ext events = foldl (step ext) new_manager events"

text \<open>
  The pending paste timer: the sources of the main loop that belong to the manager are
  the one \<^verbatim>\<open>pasteSignalId\<close> names, and none when it is negative.
\<close>

definition one_pending :: "manager \<Rightarrow> bool" where
  "one_pending m =
     (if 0 \<le> pasteSignalId m then sources m = [nat (pasteSignalId m)] else sources m = [])"

definition item_type :: "(ItemType \<times> string \<times> Metadata option) option \<Rightarrow> ItemType option" where
  "item_type r = map_option fst r"

subsection \<open>The display name as the specification words it\<close>

definition toUpperCase :: "char \<Rightarrow> char" where
  "toUpperCase c =
     (case map_of (zip ''abcdefghijklmnopqrstuvwxyz'' ''ABCDEFGHIJKLMNOPQRSTUVWXYZ'') c of
        None \<Rightarrow> c
      | Some u \<Rightarrow> u)"

definition capitalized :: "string \<Rightarrow> string" where
  "capitalized ident = map toUpperCase (take 1 ident) @ drop 1 ident"

text \<open>
  The specification: the capitalized id if it is no shorter than the detector's name
  minus 3 characters, the detector's name otherwise.
\<close>

definition spec_display_name :: "string \<Rightarrow> string \<Rightarrow> string" where
  "spec_display_name ident name =
     (if int (length (capitalized ident)) \<ge> int (length name) - 3 then capitalized ident
      else name)"

subsection \<open>A sample desktop\<close>

text \<open>
  Values for the externals at which the theorems below are instantiated. The digest is
  a stand-in that keeps its input readable; the segmenter is the grapheme segmentation
  of ASCII text, where a carriage return followed by a line feed is the only cluster of
  two code units; the validity check accepts what starts with a scheme and two slashes
  and goes on.
\<close>

fun graphemes :: "string \<Rightarrow> string list" where
  "graphemes [] = []"
| "graphemes [c] = [[c]]"
| "graphemes (c # d # cs) =
     (if c = CHR 0x0D \<and> d = CHR 0x0A then [c, d] # graphemes cs else [c] # graphemes (d # cs))"

definition sample_hljs :: Hljs where
  "sample_hljs =
     \<lparr>highlightAuto = (\<lambda>s.
        if startsWith s ''<'' then \<lparr>language = Some ''xml'', relevance = 4\<rparr>
        else if startsWith s ''SELECT'' then \<lparr>language = Some ''sql'', relevance = 5\<rparr>
        else \<lparr>language = None, relevance = 0\<rparr>),
      getLanguage_name = (\<lambda>i.
        if i = ''xml'' then Some ''HTML, XML'' else if i = ''sql'' then Some ''SQL'' else None)\<rparr>"

definition sample_externals :: externals where
  "sample_externals =
     \<lparr>compute_checksum_for_string = (\<lambda>s n. Some (''md5:'' @ take n s)),
      compute_checksum_for_bytes = (\<lambda>b. Some (''md5:'' @ map (\<lambda>w. CHR ''x'') b)),
      decodeURI = (\<lambda>s. if CHR ''%'' \<in> set s then Inl URIError else Inr s),
      text_encode = map (\<lambda>c. of_nat (of_char c)),
      text_decode = map (\<lambda>w. char_of (unat w)),
      uri_is_valid = (\<lambda>s.
        if (startsWith s ''http://'' \<or> startsWith s ''https://'') \<and> length s > 8 then Inr True
        else Inl GError),
      segmenter = graphemes,
      color_parse = (\<lambda>s. startsWith s ''#'' \<and> length s = 7),
      hljs = Some sample_hljs,
      store_image = (\<lambda>c d. Inr (''file:///images/'' @ c)),
      tracker_insert = (\<lambda>t c md.
        Inr (Some \<lparr>entry_type = t, entry_content = c, entry_metadata = md, datetime = 0\<rparr>)),
      load_contents = (\<lambda>u. Inr [137, 80, 78, 71]),
      guess_mime_type = (\<lambda>p b. Some ''image/png''),
      now_utc = 1\<rparr>"

definition sample_settings :: settings where
  "sample_settings =
     \<lparr>sync_primary = False, paste_on_copy = True, update_date_on_copy = False,
      incognito = False, wmclass_exclusions = [''KeePassXC''], max_characters = 1,
      focus_window = None, purpose_terminal = False\<rparr>"

definition sample_image_entry :: ClipboardEntry where
  "sample_image_entry =
     \<lparr>entry_type = ItemType.Image, entry_content = ''file:///images/md5:xxxx'',
      entry_metadata = None, datetime = 0\<rparr>"

definition text_selection :: "string \<Rightarrow> Selection" where
  "text_selection txt =
     \<lparr>get_mimetypes = [''text/plain;charset=utf-8'', ''UTF8_STRING''],
      get_content = (\<lambda>m. []), get_text = Some txt\<rparr>"

section \<open>Properties\<close>

subsection \<open>Auxiliary facts\<close>

lemma iterator_next_drop: "iterator_next i it = drop i it"
  by (induction i arbitrary: it) (simp_all add: drop_Suc)

lemma is_character_iff:
  "is_character ext cfg trimmed \<longleftrightarrow> length (segmenter ext trimmed) \<le> nat (max_characters cfg)"
  by (simp add: is_character_def iterator_next_drop)

lemma array_includes_iff: "array_includes xs x \<longleftrightarrow> x \<in> set xs"
  by (auto simp: array_includes_def list_ex_iff)

lemma decode_paths_all:
  "(\<forall>p\<in>set ps. decodeURI ext p = Inr (dec p)) \<Longrightarrow>
   decode_paths ext ps = Inr (map (\<lambda>p. drop (length ''file://'') (dec p)) ps)"
  by (induction ps) simp_all

subsection \<open>The fingerprint of a file list\<close>

text \<open>
  What \<^verbatim>\<open>contentChecksum\<close> computes for a file list. The operation tag does not
  enter it. When every path decodes (\<^verbatim>\<open>decodeURI\<close> does not throw), the fingerprint
  is the digest of the decoded paths joined by newlines, each without its first
  \<^verbatim>\<open>'file://'.length\<close> characters, whatever these characters are; the length handed
  to the digest is the length of that string.
\<close>

lemma contentChecksum_file_list:
  "contentChecksum ext (FileContent ps oper) = contentChecksum ext (FileContent ps other) \<and>
   ((\<forall>p\<in>set ps. decodeURI ext p = Inr (dec p)) \<longrightarrow>
      contentChecksum ext (FileContent ps oper) =
        Inr (compute_checksum_for_string ext
               (join_nl (map (\<lambda>p. drop (length ''file://'') (dec p)) ps))
               (length (join_nl (map (\<lambda>p. drop (length ''file://'') (dec p)) ps)))))"
  using decode_paths_all [of ps ext dec] by auto

text \<open>
  Claim C7 does not hold of the code. The fingerprint does not depend on the operation
  tag, but the digest is not taken over the scheme-stripped paths: the source removes
  the first seven characters of every decoded path without looking at them. That
  strips the scheme of a \<^verbatim>\<open>file://\<close> URI and nothing else. With any digest function,
  the copied files \<^verbatim>\<open>smb://a/doc\<close> and \<^verbatim>\<open>smb://b/doc\<close> both get the fingerprint of
  \<^verbatim>\<open>/doc\<close>, and the path \<^verbatim>\<open>/a/b\<close> gets the fingerprint of the empty string. So
  when the second file is copied after the first, the ownership change is taken for a
  duplicate and only the first file reaches the history.
\<close>

theorem fileList_checksum_drops_seven:
  "contentChecksum (sample_externals\<lparr>compute_checksum_for_string := digest\<rparr>)
     (FileContent [''smb://a/doc''] oper) = Inr (digest ''/doc'' (length ''/doc'')) \<and>
   contentChecksum (sample_externals\<lparr>compute_checksum_for_string := digest\<rparr>)
     (FileContent [''smb://b/doc''] oper) = Inr (digest ''/doc'' (length ''/doc'')) \<and>
   contentChecksum (sample_externals\<lparr>compute_checksum_for_string := digest\<rparr>)
     (FileContent [''/a/b''] oper) = Inr (digest [] 0) \<and>
   getContent sample_externals
     \<lparr>get_mimetypes = [''x-special-gnome-copied-files''],
      get_content = (\<lambda>m. [99, 111, 112, 121, 10, 115, 109, 98, 58, 47, 47, 97, 47, 100, 111, 99]),
      get_text = None\<rparr> = Some (FileContent [''smb://a/doc''] Copy) \<and>
   getContent sample_externals
     \<lparr>get_mimetypes = [''x-special-gnome-copied-files''],
      get_content = (\<lambda>m. [99, 111, 112, 121, 10, 115, 109, 98, 58, 47, 47, 98, 47, 100, 111, 99]),
      get_text = None\<rparr> = Some (FileContent [''smb://b/doc''] Copy) \<and>
   tracker_inserts (run sample_externals
     [OwnerChanged sample_settings
        \<lparr>get_mimetypes = [''x-special-gnome-copied-files''],
         get_content = (\<lambda>m. [99, 111, 112, 121, 10, 115, 109, 98, 58, 47, 47, 97, 47, 100, 111, 99]),
         get_text = None\<rparr> SELECTION_CLIPBOARD,
      OwnerChanged sample_settings
        \<lparr>get_mimetypes = [''x-special-gnome-copied-files''],
         get_content = (\<lambda>m. [99, 111, 112, 121, 10, 115, 109, 98, 58, 47, 47, 98, 47, 100, 111, 99]),
         get_text = None\<rparr> SELECTION_CLIPBOARD])
     = [(ItemType.File, ''smb://a/doc'', Some (Operation Copy))]"
proof -
  have sums: "contentChecksum (sample_externals\<lparr>compute_checksum_for_string := digest\<rparr>)
       (FileContent [''smb://a/doc''] oper) = Inr (digest ''/doc'' (length ''/doc''))"
    "contentChecksum (sample_externals\<lparr>compute_checksum_for_string := digest\<rparr>)
       (FileContent [''smb://b/doc''] oper) = Inr (digest ''/doc'' (length ''/doc''))"
    "contentChecksum (sample_externals\<lparr>compute_checksum_for_string := digest\<rparr>)
       (FileContent [''/a/b''] oper) = Inr (digest [] 0)"
    by (simp_all add: sample_externals_def)
  have decoded:
    "trim (text_decode sample_externals
       [99, 111, 112, 121, 10, 115, 109, 98, 58, 47, 47, 97, 47, 100, 111, 99]) = ''copy
smb://a/doc''"
    "trim (text_decode sample_externals
       [99, 111, 112, 121, 10, 115, 109, 98, 58, 47, 47, 98, 47, 100, 111, 99]) = ''copy
smb://b/doc''"
    by code_simp+
  have listed: "file_list (''copy
smb://a/doc'') = FileContent [''smb://a/doc''] Copy"
    "file_list (''copy
smb://b/doc'') = FileContent [''smb://b/doc''] Copy"
    by code_simp+
  have first: "getContent sample_externals
     \<lparr>get_mimetypes = [''x-special-gnome-copied-files''],
      get_content = (\<lambda>m. [99, 111, 112, 121, 10, 115, 109, 98, 58, 47, 47, 97, 47, 100, 111, 99]),
      get_text = None\<rparr> = Some (FileContent [''smb://a/doc''] Copy)"
    by (simp add: getContent_def MimeTypes_Sensitive_def MimeTypes_Image_def MimeTypes_File_def
        array_includes_def decoded listed)
  have second: "getContent sample_externals
     \<lparr>get_mimetypes = [''x-special-gnome-copied-files''],
      get_content = (\<lambda>m. [99, 111, 112, 121, 10, 115, 109, 98, 58, 47, 47, 98, 47, 100, 111, 99]),
      get_text = None\<rparr> = Some (FileContent [''smb://b/doc''] Copy)"
    by (simp add: getContent_def MimeTypes_Sensitive_def MimeTypes_Image_def MimeTypes_File_def
        array_includes_def decoded listed)
  have stored: "contentChecksum sample_externals (FileContent [''smb://a/doc''] Copy)
       = Inr (Some ''md5:/doc'')"
    "contentChecksum sample_externals (FileContent [''smb://b/doc''] Copy)
       = Inr (Some ''md5:/doc'')"
    by (simp_all add: sample_externals_def)
  have save: "shouldSave sample_settings"
    by (simp add: shouldSave_def sample_settings_def)
  have insert: "tracker_insert sample_externals ItemType.File ''smb://a/doc'' (Some (Operation Copy))
      = Inr (Some \<lparr>entry_type = ItemType.File, entry_content = ''smb://a/doc'',
                    entry_metadata = Some (Operation Copy), datetime = 0\<rparr>)"
    by (simp add: sample_externals_def)
  have history: "tracker_inserts (run sample_externals
     [OwnerChanged sample_settings
        \<lparr>get_mimetypes = [''x-special-gnome-copied-files''],
         get_content = (\<lambda>m. [99, 111, 112, 121, 10, 115, 109, 98, 58, 47, 47, 97, 47, 100, 111, 99]),
         get_text = None\<rparr> SELECTION_CLIPBOARD,
      OwnerChanged sample_settings
        \<lparr>get_mimetypes = [''x-special-gnome-copied-files''],
         get_content = (\<lambda>m. [99, 111, 112, 121, 10, 115, 109, 98, 58, 47, 47, 98, 47, 100, 111, 99]),
         get_text = None\<rparr> SELECTION_CLIPBOARD])
     = [(ItemType.File, ''smb://a/doc'', Some (Operation Copy))]"
    by (simp add: run_def ownerChanged_def first second stored save insert is_duplicate_def
        new_manager_def del: contentChecksum.simps)
  show ?thesis
    using sums first second history by (intro conjI)
qed

subsection \<open>Auxiliary facts about acquisition and classification\<close>

lemma find_first:
  assumes "i < length xs" and "P (xs ! i)" and "\<forall>v\<in>set (take i xs). \<not> P v"
  shows "find P xs = Some (xs ! i)"
proof -
  have "\<not> P (xs ! j)" if "j < i" for j
  proof -
    have "take i xs ! j \<in> set (take i xs)"
      using that assms(1) by (intro nth_mem) simp
    then show ?thesis
      using that assms(3) by simp
  qed
  then show ?thesis
    using assms(1,2) by (auto simp: find_Some_iff)
qed

lemma find_none: "(\<forall>x\<in>set xs. \<not> P x) \<Longrightarrow> find P xs = None"
  by (simp add: find_None_iff)

lemma getContent_sensitive:
  "''x-kde-passwordManagerHint'' \<in> set (get_mimetypes sel) \<Longrightarrow> getContent ext sel = None"
  by (simp add: getContent_def MimeTypes_Sensitive_def array_includes_iff)

lemma getContent_image:
  assumes "''x-kde-passwordManagerHint'' \<notin> set (get_mimetypes sel)"
    and "i < length MimeTypes_Image"
    and "MimeTypes_Image ! i \<in> set (get_mimetypes sel)"
    and "\<forall>v\<in>set (take i MimeTypes_Image). v \<notin> set (get_mimetypes sel)"
  shows "getContent ext sel =
     (let bytes = get_content sel (MimeTypes_Image ! i) in
      if bytes = [] then None
      else case compute_checksum_for_bytes ext bytes of
             None \<Rightarrow> None
           | Some c \<Rightarrow> if c = [] then None else Some (ImageContent (MimeTypes_Image ! i) bytes c))"
proof -
  have "find (array_includes (get_mimetypes sel)) MimeTypes_Image = Some (MimeTypes_Image ! i)"
    using assms(2-4) by (intro find_first) (simp_all add: array_includes_iff)
  then show ?thesis
    using assms(1)
    by (simp add: getContent_def MimeTypes_Sensitive_def array_includes_iff Let_def)
qed

lemma getContent_file:
  assumes "''x-kde-passwordManagerHint'' \<notin> set (get_mimetypes sel)"
    and "\<forall>v\<in>set MimeTypes_Image. v \<notin> set (get_mimetypes sel)"
    and "i < length MimeTypes_File"
    and "MimeTypes_File ! i \<in> set (get_mimetypes sel)"
    and "\<forall>v\<in>set (take i MimeTypes_File). v \<notin> set (get_mimetypes sel)"
  shows "getContent ext sel =
     (let txt = trim (text_decode ext (get_content sel (MimeTypes_File ! i))) in
      if txt = [] then None else Some (file_list txt))"
proof -
  have "find (array_includes (get_mimetypes sel)) MimeTypes_Image = None"
    using assms(2) by (intro find_none) (simp add: array_includes_iff)
  moreover have "find (array_includes (get_mimetypes sel)) MimeTypes_File = Some (MimeTypes_File ! i)"
    using assms(3-5) by (intro find_first) (simp_all add: array_includes_iff)
  ultimately show ?thesis
    using assms(1)
    by (simp add: getContent_def MimeTypes_Sensitive_def array_includes_iff Let_def)
qed

lemma getContent_text:
  assumes "''x-kde-passwordManagerHint'' \<notin> set (get_mimetypes sel)"
    and "\<forall>v\<in>set MimeTypes_Image. v \<notin> set (get_mimetypes sel)"
    and "\<forall>v\<in>set MimeTypes_File. v \<notin> set (get_mimetypes sel)"
    and "\<exists>v\<in>set MimeTypes_Text. v \<in> set (get_mimetypes sel)"
  shows "getContent ext sel =
     (case get_text sel of
        None \<Rightarrow> None
      | Some txt \<Rightarrow> if trim txt = [] then None else Some (TextContent txt))"
proof -
  have "find (array_includes (get_mimetypes sel)) MimeTypes_Image = None"
    using assms(2) by (intro find_none) (simp add: array_includes_iff)
  moreover have "find (array_includes (get_mimetypes sel)) MimeTypes_File = None"
    using assms(3) by (intro find_none) (simp add: array_includes_iff)
  moreover obtain v where "find (array_includes (get_mimetypes sel)) MimeTypes_Text = Some v"
    using assms(4) by (cases "find (array_includes (get_mimetypes sel)) MimeTypes_Text")
      (auto simp: find_None_iff array_includes_iff)
  moreover have "trim [] = []" by (simp add: trim_def)
  ultimately show ?thesis
    using assms(1)
    by (auto simp: getContent_def MimeTypes_Sensitive_def array_includes_iff Let_def
        split: option.splits)
qed

lemma getContent_unrecognized:
  assumes "\<forall>v\<in>set (MimeTypes_Sensitive @ MimeTypes_Image @ MimeTypes_File @ MimeTypes_Text).
             v \<notin> set (get_mimetypes sel)"
  shows "getContent ext sel = None"
proof -
  have "find (array_includes (get_mimetypes sel)) MimeTypes_Image = None"
    using assms by (intro find_none) (simp add: array_includes_iff)
  moreover have "find (array_includes (get_mimetypes sel)) MimeTypes_File = None"
    using assms by (intro find_none) (simp add: array_includes_iff)
  moreover have "find (array_includes (get_mimetypes sel)) MimeTypes_Text = None"
    using assms by (intro find_none) (simp add: array_includes_iff)
  ultimately show ?thesis
    by (simp add: getContent_def Let_def)
qed

lemma convert_link:
  "is_link ext (trim t) \<Longrightarrow> convertContent ext cfg (TextContent t) = Some (ItemType.Link, t, None)"
  by simp

lemma convert_character:
  "\<not> is_link ext (trim t) \<Longrightarrow> is_character ext cfg (trim t) \<Longrightarrow>
   convertContent ext cfg (TextContent t) = Some (ItemType.Character, t, None)"
  by simp

lemma convert_color:
  "\<not> is_link ext (trim t) \<Longrightarrow> \<not> is_character ext cfg (trim t) \<Longrightarrow> color_parse ext (trim t) \<Longrightarrow>
   convertContent ext cfg (TextContent t) = Some (ItemType.Color, t, None)"
  by simp

lemma convert_code:
  "\<not> is_link ext (trim t) \<Longrightarrow> \<not> is_character ext cfg (trim t) \<Longrightarrow> \<not> color_parse ext (trim t) \<Longrightarrow>
   detect_code ext (trim t) = Some (h, ident) \<Longrightarrow>
   convertContent ext cfg (TextContent t) = Some (ItemType.Code, t, Some (code_metadata h ident))"
  by simp

lemma convert_text:
  "\<not> is_link ext (trim t) \<Longrightarrow> \<not> is_character ext cfg (trim t) \<Longrightarrow> \<not> color_parse ext (trim t) \<Longrightarrow>
   detect_code ext (trim t) = None \<Longrightarrow>
   convertContent ext cfg (TextContent t) = Some (ItemType.Text, t, None)"
  by simp

lemma convert_text_cases:
  "convertContent ext cfg (TextContent t) = Some (ty, c, md) \<Longrightarrow>
   c = t \<and>
   (ty = ItemType.Link \<longleftrightarrow> is_link ext (trim t)) \<and>
   (ty = ItemType.Character \<longleftrightarrow> \<not> is_link ext (trim t) \<and> is_character ext cfg (trim t)) \<and>
   (ty = ItemType.Color \<longleftrightarrow>
      \<not> is_link ext (trim t) \<and> \<not> is_character ext cfg (trim t) \<and> color_parse ext (trim t)) \<and>
   (ty = ItemType.Code \<longleftrightarrow>
      \<not> is_link ext (trim t) \<and> \<not> is_character ext cfg (trim t) \<and> \<not> color_parse ext (trim t) \<and>
      detect_code ext (trim t) \<noteq> None) \<and>
   (ty = ItemType.Text \<longleftrightarrow>
      \<not> is_link ext (trim t) \<and> \<not> is_character ext cfg (trim t) \<and> \<not> color_parse ext (trim t) \<and>
      detect_code ext (trim t) = None)"
  by (auto simp: Let_def split: if_splits option.splits)

lemma detect_code_iff:
  "detect_code ext trimmed = Some (h, ident) \<longleftrightarrow>
     hljs ext = Some h \<and>
     language (highlightAuto h (take 10000 trimmed)) = Some ident \<and> ident \<noteq> [] \<and>
     of_int (relevance (highlightAuto h (take 10000 trimmed)))
       / max 1 (of_nat (length (take 10000 trimmed)) / 100) \<ge> (3::rat)"
  by (auto simp: detect_code_def normalized_relevance_def Let_def split: option.splits)

lemma convert_image_indep:
  "store_image ext' = store_image ext \<Longrightarrow>
   convertContent ext' cfg' (ImageContent m d c) = convertContent ext cfg (ImageContent m d c)"
  by simp

lemma convert_file_indep:
  "convertContent ext' cfg' (FileContent ps oper) = convertContent ext cfg (FileContent ps oper)"
  by simp

lemma convert_image_type:
  "convertContent ext cfg (ImageContent m d c) = Some (ty, x, md) \<Longrightarrow> ty = ItemType.Image"
  by (auto split: sum.splits)

lemma convert_file_type:
  "convertContent ext cfg (FileContent ps oper) = Some (ty, x, md) \<Longrightarrow>
   ty = (if length ps = 1 then ItemType.File else ItemType.Files)"
  by (auto split: list.splits)

lemma is_link_same:
  "uri_is_valid ext' = uri_is_valid ext \<Longrightarrow> is_link ext' s = is_link ext s"
  by (simp add: is_link_def)

lemma is_character_same:
  "segmenter ext' = segmenter ext \<Longrightarrow> max_characters cfg' = max_characters cfg \<Longrightarrow>
   is_character ext' cfg' s = is_character ext cfg s"
  by (simp add: is_character_def)

lemma is_link_iff:
  "is_link ext s \<longleftrightarrow> startsWith s ''http'' \<and> uri_is_valid ext s = Inr True"
  by (auto simp: is_link_def split: sum.splits)

subsection \<open>The order of content acquisition\<close>

text \<open>
  Claim C8. \<^verbatim>\<open>getContent\<close> decides in the order sensitive, image, file list, text,
  and the first match wins. With the password-manager hint advertised the result is
  null. Otherwise, with an image type advertised, the bytes are requested for the first
  advertised type in the order png, jxl, webp, avif, jpeg, whatever else is advertised;
  an empty payload gives null, and so does a failed digest. Otherwise a file-list type
  is read, otherwise text, and with no recognized type advertised the result is null.
\<close>

theorem getContent_priority:
  "(''x-kde-passwordManagerHint'' \<in> set (get_mimetypes sel) \<longrightarrow> getContent ext sel = None) \<and>
   (''x-kde-passwordManagerHint'' \<notin> set (get_mimetypes sel) \<and>
    i < length [''image/png'', ''image/jxl'', ''image/webp'', ''image/avif'', ''image/jpeg''] \<and>
    [''image/png'', ''image/jxl'', ''image/webp'', ''image/avif'', ''image/jpeg''] ! i
       \<in> set (get_mimetypes sel) \<and>
    (\<forall>v\<in>set (take i [''image/png'', ''image/jxl'', ''image/webp'', ''image/avif'', ''image/jpeg'']).
       v \<notin> set (get_mimetypes sel)) \<longrightarrow>
    getContent ext sel =
      (let requested = [''image/png'', ''image/jxl'', ''image/webp'', ''image/avif'', ''image/jpeg''] ! i;
           bytes = get_content sel requested
       in if bytes = [] then None
          else case compute_checksum_for_bytes ext bytes of
                 None \<Rightarrow> None
               | Some c \<Rightarrow> if c = [] then None else Some (ImageContent requested bytes c))) \<and>
   (''x-kde-passwordManagerHint'' \<notin> set (get_mimetypes sel) \<and>
    (\<forall>v\<in>set MimeTypes_Image. v \<notin> set (get_mimetypes sel)) \<and>
    k < length MimeTypes_File \<and> MimeTypes_File ! k \<in> set (get_mimetypes sel) \<and>
    (\<forall>v\<in>set (take k MimeTypes_File). v \<notin> set (get_mimetypes sel)) \<longrightarrow>
    getContent ext sel =
      (let txt = trim (text_decode ext (get_content sel (MimeTypes_File ! k)))
       in if txt = [] then None else Some (file_list txt))) \<and>
   (''x-kde-passwordManagerHint'' \<notin> set (get_mimetypes sel) \<and>
    (\<forall>v\<in>set MimeTypes_Image. v \<notin> set (get_mimetypes sel)) \<and>
    (\<forall>v\<in>set MimeTypes_File. v \<notin> set (get_mimetypes sel)) \<and>
    (\<exists>v\<in>set MimeTypes_Text. v \<in> set (get_mimetypes sel)) \<longrightarrow>
    getContent ext sel =
      (case get_text sel of
         None \<Rightarrow> None
       | Some txt \<Rightarrow> if trim txt = [] then None else Some (TextContent txt))) \<and>
   ((\<forall>v\<in>set (MimeTypes_Sensitive @ MimeTypes_Image @ MimeTypes_File @ MimeTypes_Text).
       v \<notin> set (get_mimetypes sel)) \<longrightarrow>
    getContent ext sel = None)"
proof -
  have img: "[''image/png'', ''image/jxl'', ''image/webp'', ''image/avif'', ''image/jpeg''] = MimeTypes_Image"
    by (simp add: MimeTypes_Image_def)
  show ?thesis
    unfolding img
    using getContent_sensitive [of sel ext] getContent_image [of sel i ext]
      getContent_file [of sel k ext] getContent_text [of sel ext]
      getContent_unrecognized [of sel ext]
    by (simp only: Let_def) blast
qed

theorem getContent_priority_witness:
  "getContent sample_externals
     \<lparr>get_mimetypes = [''text/plain'', ''x-kde-passwordManagerHint''],
      get_content = (\<lambda>m. []), get_text = Some ''hunter2''\<rparr> = None \<and>
   getContent sample_externals
     \<lparr>get_mimetypes = [''text/plain'', ''image/jpeg'', ''image/webp''],
      get_content = (\<lambda>m. if m = ''image/webp'' then [82, 73] else if m = ''image/jpeg'' then [255] else []),
      get_text = Some ''a picture''\<rparr> = Some (ImageContent ''image/webp'' [82, 73] ''md5:xx'') \<and>
   getContent sample_externals
     \<lparr>get_mimetypes = [''image/png'', ''text/plain''],
      get_content = (\<lambda>m. []), get_text = Some ''a picture''\<rparr> = None \<and>
   getContent sample_externals
     \<lparr>get_mimetypes = [''text/plain'', ''text/uri-list''],
      get_content = (\<lambda>m. [99, 117, 116, 10, 47, 97, 10]), get_text = Some ''/a''\<rparr> =
     Some (FileContent [''/a''] Cut) \<and>
   getContent sample_externals (text_selection ''hello'') = Some (TextContent ''hello'') \<and>
   getContent sample_externals
     \<lparr>get_mimetypes = [''application/x-qt-image''],
      get_content = (\<lambda>m. [1]), get_text = Some ''hello''\<rparr> = None"
proof -
  have sensitive: "getContent sample_externals
     \<lparr>get_mimetypes = [''text/plain'', ''x-kde-passwordManagerHint''],
      get_content = (\<lambda>m. []), get_text = Some ''hunter2''\<rparr> = None"
    using getContent_priority [where ext = sample_externals and sel =
        "\<lparr>get_mimetypes = [''text/plain'', ''x-kde-passwordManagerHint''],
          get_content = (\<lambda>m. []), get_text = Some ''hunter2''\<rparr>"]
    by simp
  have image: "getContent sample_externals
     \<lparr>get_mimetypes = [''text/plain'', ''image/jpeg'', ''image/webp''],
      get_content = (\<lambda>m. if m = ''image/webp'' then [82, 73] else if m = ''image/jpeg'' then [255] else []),
      get_text = Some ''a picture''\<rparr> = Some (ImageContent ''image/webp'' [82, 73] ''md5:xx'')"
    using getContent_priority [where ext = sample_externals and i = 2 and sel =
        "\<lparr>get_mimetypes = [''text/plain'', ''image/jpeg'', ''image/webp''],
          get_content = (\<lambda>m. if m = ''image/webp'' then [82, 73] else if m = ''image/jpeg'' then [255] else []),
          get_text = Some ''a picture''\<rparr>"]
    by (simp add: sample_externals_def)
  have empty: "getContent sample_externals
     \<lparr>get_mimetypes = [''image/png'', ''text/plain''],
      get_content = (\<lambda>m. []), get_text = Some ''a picture''\<rparr> = None"
    using getContent_priority [where ext = sample_externals and i = 0 and sel =
        "\<lparr>get_mimetypes = [''image/png'', ''text/plain''],
          get_content = (\<lambda>m. []), get_text = Some ''a picture''\<rparr>"]
    by simp
  have decoded: "trim (text_decode sample_externals [99, 117, 116, 10, 47, 97, 10]) = ''cut
/a''"
    by code_simp
  have listed: "file_list (''cut
/a'') = FileContent [''/a''] Cut"
    by code_simp
  have files: "getContent sample_externals
     \<lparr>get_mimetypes = [''text/plain'', ''text/uri-list''],
      get_content = (\<lambda>m. [99, 117, 116, 10, 47, 97, 10]), get_text = Some ''/a''\<rparr> =
     Some (FileContent [''/a''] Cut)"
    using getContent_priority [where ext = sample_externals and k = 1 and sel =
        "\<lparr>get_mimetypes = [''text/plain'', ''text/uri-list''],
          get_content = (\<lambda>m. [99, 117, 116, 10, 47, 97, 10]), get_text = Some ''/a''\<rparr>"]
    by (simp add: MimeTypes_Image_def MimeTypes_File_def decoded listed)
  have trimmed: "trim ''hello'' = ''hello''"
    by code_simp
  have plain: "getContent sample_externals (text_selection ''hello'') = Some (TextContent ''hello'')"
    using getContent_priority [where ext = sample_externals and sel = "text_selection ''hello''"]
    by (simp add: MimeTypes_Image_def MimeTypes_File_def MimeTypes_Text_def text_selection_def trimmed)
  have unknown: "getContent sample_externals
     \<lparr>get_mimetypes = [''application/x-qt-image''],
      get_content = (\<lambda>m. [1]), get_text = Some ''hello''\<rparr> = None"
    using getContent_priority [where ext = sample_externals and sel =
        "\<lparr>get_mimetypes = [''application/x-qt-image''],
          get_content = (\<lambda>m. [1]), get_text = Some ''hello''\<rparr>"]
    by (simp add: MimeTypes_Image_def MimeTypes_File_def MimeTypes_Text_def MimeTypes_Sensitive_def)
  show ?thesis
    using sensitive image empty files plain unknown by simp
qed

subsection \<open>The order of classification\<close>

text \<open>
  Claim C4. For a text payload the heuristics apply in the order Link, Character,
  Color, Code, Text and the first that matches gives the type. Once one has matched, the
  later ones are not consulted: the result stays the same when the collaborators behind
  the later heuristics are exchanged for any others. Image and file-list payloads do
  not enter this classification: their result does not depend on any of the
  heuristics, and their type is Image (or no result), File or Files.
\<close>

theorem convertContent_first_match:
  "(is_link ext (trim t) \<longrightarrow>
      item_type (convertContent ext cfg (TextContent t)) = Some ItemType.Link) \<and>
   (\<not> is_link ext (trim t) \<and> is_character ext cfg (trim t) \<longrightarrow>
      item_type (convertContent ext cfg (TextContent t)) = Some ItemType.Character) \<and>
   (\<not> is_link ext (trim t) \<and> \<not> is_character ext cfg (trim t) \<and> color_parse ext (trim t) \<longrightarrow>
      item_type (convertContent ext cfg (TextContent t)) = Some ItemType.Color) \<and>
   (\<not> is_link ext (trim t) \<and> \<not> is_character ext cfg (trim t) \<and> \<not> color_parse ext (trim t) \<and>
    detect_code ext (trim t) \<noteq> None \<longrightarrow>
      item_type (convertContent ext cfg (TextContent t)) = Some ItemType.Code) \<and>
   (\<not> is_link ext (trim t) \<and> \<not> is_character ext cfg (trim t) \<and> \<not> color_parse ext (trim t) \<and>
    detect_code ext (trim t) = None \<longrightarrow>
      item_type (convertContent ext cfg (TextContent t)) = Some ItemType.Text) \<and>
   (is_link ext (trim t) \<and> uri_is_valid ext' = uri_is_valid ext \<longrightarrow>
      convertContent ext' cfg' (TextContent t) = convertContent ext cfg (TextContent t)) \<and>
   (\<not> is_link ext (trim t) \<and> is_character ext cfg (trim t) \<and>
    uri_is_valid ext' = uri_is_valid ext \<and> segmenter ext' = segmenter ext \<and>
    max_characters cfg' = max_characters cfg \<longrightarrow>
      convertContent ext' cfg' (TextContent t) = convertContent ext cfg (TextContent t)) \<and>
   (\<not> is_link ext (trim t) \<and> \<not> is_character ext cfg (trim t) \<and> color_parse ext (trim t) \<and>
    uri_is_valid ext' = uri_is_valid ext \<and> segmenter ext' = segmenter ext \<and>
    max_characters cfg' = max_characters cfg \<and> color_parse ext' = color_parse ext \<longrightarrow>
      convertContent ext' cfg' (TextContent t) = convertContent ext cfg (TextContent t)) \<and>
   (store_image ext' = store_image ext \<longrightarrow>
      convertContent ext' cfg' (ImageContent mt d c) = convertContent ext cfg (ImageContent mt d c)) \<and>
   item_type (convertContent ext cfg (ImageContent mt d c)) \<in> {None, Some ItemType.Image} \<and>
   convertContent ext' cfg' (FileContent ps oper) = convertContent ext cfg (FileContent ps oper) \<and>
   item_type (convertContent ext cfg (FileContent ps oper)) \<in> {Some ItemType.File, Some ItemType.Files}"
proof (intro conjI impI)
  show "item_type (convertContent ext cfg (TextContent t)) = Some ItemType.Link"
    if "is_link ext (trim t)"
    using that by (simp add: item_type_def)
  show "item_type (convertContent ext cfg (TextContent t)) = Some ItemType.Character"
    if "\<not> is_link ext (trim t) \<and> is_character ext cfg (trim t)"
    using that by (simp add: item_type_def)
  show "item_type (convertContent ext cfg (TextContent t)) = Some ItemType.Color"
    if "\<not> is_link ext (trim t) \<and> \<not> is_character ext cfg (trim t) \<and> color_parse ext (trim t)"
    using that by (simp add: item_type_def)
  show "item_type (convertContent ext cfg (TextContent t)) = Some ItemType.Code"
    if "\<not> is_link ext (trim t) \<and> \<not> is_character ext cfg (trim t) \<and> \<not> color_parse ext (trim t) \<and>
        detect_code ext (trim t) \<noteq> None"
    using that by (auto simp: item_type_def)
  show "item_type (convertContent ext cfg (TextContent t)) = Some ItemType.Text"
    if "\<not> is_link ext (trim t) \<and> \<not> is_character ext cfg (trim t) \<and> \<not> color_parse ext (trim t) \<and>
        detect_code ext (trim t) = None"
    using that by (simp add: item_type_def)
  show "convertContent ext' cfg' (TextContent t) = convertContent ext cfg (TextContent t)"
    if "is_link ext (trim t) \<and> uri_is_valid ext' = uri_is_valid ext"
  proof -
    have "is_link ext' (trim t) = is_link ext (trim t)"
      using that by (intro is_link_same) simp
    then show ?thesis
      using that by simp
  qed
  show "convertContent ext' cfg' (TextContent t) = convertContent ext cfg (TextContent t)"
    if "\<not> is_link ext (trim t) \<and> is_character ext cfg (trim t) \<and>
        uri_is_valid ext' = uri_is_valid ext \<and> segmenter ext' = segmenter ext \<and>
        max_characters cfg' = max_characters cfg"
  proof -
    have "is_link ext' (trim t) = is_link ext (trim t)"
      using that by (intro is_link_same) simp
    moreover have "is_character ext' cfg' (trim t) = is_character ext cfg (trim t)"
      using that by (intro is_character_same) simp_all
    ultimately show ?thesis
      using that by simp
  qed
  show "convertContent ext' cfg' (TextContent t) = convertContent ext cfg (TextContent t)"
    if "\<not> is_link ext (trim t) \<and> \<not> is_character ext cfg (trim t) \<and> color_parse ext (trim t) \<and>
        uri_is_valid ext' = uri_is_valid ext \<and> segmenter ext' = segmenter ext \<and>
        max_characters cfg' = max_characters cfg \<and> color_parse ext' = color_parse ext"
  proof -
    have "is_link ext' (trim t) = is_link ext (trim t)"
      using that by (intro is_link_same) simp
    moreover have "is_character ext' cfg' (trim t) = is_character ext cfg (trim t)"
      using that by (intro is_character_same) simp_all
    ultimately show ?thesis
      using that by simp
  qed
  show "convertContent ext' cfg' (ImageContent mt d c) = convertContent ext cfg (ImageContent mt d c)"
    if "store_image ext' = store_image ext"
    using that by simp
  show "item_type (convertContent ext cfg (ImageContent mt d c)) \<in> {None, Some ItemType.Image}"
    by (simp add: item_type_def split: sum.splits)
  show "convertContent ext' cfg' (FileContent ps oper) = convertContent ext cfg (FileContent ps oper)"
    by simp
  show "item_type (convertContent ext cfg (FileContent ps oper))
      \<in> {Some ItemType.File, Some ItemType.Files}"
    by (simp add: item_type_def split: list.splits)
qed

lemma trim_samples:
  "trim ''http://a.b'' = ''http://a.b''"
  "trim ''a'' = ''a''"
  "trim '' #ff0000 '' = ''#ff0000''"
  "trim ''SELECT 1;'' = ''SELECT 1;''"
  "trim ''hello world'' = ''hello world''"
  by code_simp+

theorem convertContent_first_match_witness:
  "item_type (convertContent sample_externals sample_settings (TextContent ''http://a.b'')) = Some ItemType.Link \<and>
   item_type (convertContent sample_externals sample_settings (TextContent ''a'')) = Some ItemType.Character \<and>
   item_type (convertContent sample_externals sample_settings (TextContent '' #ff0000 '')) = Some ItemType.Color \<and>
   item_type (convertContent sample_externals sample_settings (TextContent ''SELECT 1;'')) = Some ItemType.Code \<and>
   item_type (convertContent sample_externals sample_settings (TextContent ''hello world'')) = Some ItemType.Text \<and>
   convertContent (sample_externals\<lparr>color_parse := (\<lambda>s. True), hljs := None\<rparr>) sample_settings
       (TextContent ''http://a.b'') =
     convertContent sample_externals sample_settings (TextContent ''http://a.b'') \<and>
   convertContent (sample_externals\<lparr>color_parse := (\<lambda>s. True), hljs := None\<rparr>) sample_settings
       (TextContent ''a'') =
     convertContent sample_externals sample_settings (TextContent ''a'') \<and>
   convertContent (sample_externals\<lparr>hljs := None\<rparr>) sample_settings (TextContent '' #ff0000 '') =
     convertContent sample_externals sample_settings (TextContent '' #ff0000 '') \<and>
   convertContent (sample_externals\<lparr>uri_is_valid := (\<lambda>s. Inr True), hljs := None\<rparr>) sample_settings
       (ImageContent ''image/png'' [137, 80] ''md5:xx'') =
     convertContent sample_externals sample_settings (ImageContent ''image/png'' [137, 80] ''md5:xx'')"
proof -
  have link: "is_link sample_externals (trim ''http://a.b'')"
    by (simp add: trim_samples is_link_def startsWith_def sample_externals_def)
  have character: "\<not> is_link sample_externals (trim ''a'')"
    "is_character sample_externals sample_settings (trim ''a'')"
    by (simp_all add: trim_samples is_link_def is_character_def startsWith_def
        sample_externals_def sample_settings_def)
  have color: "\<not> is_link sample_externals (trim '' #ff0000 '')"
    "\<not> is_character sample_externals sample_settings (trim '' #ff0000 '')"
    "color_parse sample_externals (trim '' #ff0000 '')"
    by (simp_all add: trim_samples is_link_def is_character_def startsWith_def
        sample_externals_def sample_settings_def)
  have code: "\<not> is_link sample_externals (trim ''SELECT 1;'')"
    "\<not> is_character sample_externals sample_settings (trim ''SELECT 1;'')"
    "\<not> color_parse sample_externals (trim ''SELECT 1;'')"
    "detect_code sample_externals (trim ''SELECT 1;'') \<noteq> None"
    by (simp_all add: trim_samples is_link_def is_character_def startsWith_def detect_code_def
        normalized_relevance_def sample_externals_def sample_settings_def sample_hljs_def)
  have plain: "\<not> is_link sample_externals (trim ''hello world'')"
    "\<not> is_character sample_externals sample_settings (trim ''hello world'')"
    "\<not> color_parse sample_externals (trim ''hello world'')"
    "detect_code sample_externals (trim ''hello world'') = None"
    by (simp_all add: trim_samples is_link_def is_character_def startsWith_def detect_code_def
        normalized_relevance_def sample_externals_def sample_settings_def sample_hljs_def)
  have same: "uri_is_valid (sample_externals\<lparr>color_parse := (\<lambda>s. True), hljs := None\<rparr>)
        = uri_is_valid sample_externals"
    "segmenter (sample_externals\<lparr>color_parse := (\<lambda>s. True), hljs := None\<rparr>)
        = segmenter sample_externals"
    "uri_is_valid (sample_externals\<lparr>hljs := None\<rparr>) = uri_is_valid sample_externals"
    "segmenter (sample_externals\<lparr>hljs := None\<rparr>) = segmenter sample_externals"
    "color_parse (sample_externals\<lparr>hljs := None\<rparr>) = color_parse sample_externals"
    "store_image (sample_externals\<lparr>uri_is_valid := (\<lambda>s. Inr True), hljs := None\<rparr>)
        = store_image sample_externals"
    by simp_all
  note m1 = convertContent_first_match [where ext = sample_externals and cfg = sample_settings
        and cfg' = sample_settings and t = "''http://a.b''"
        and ext' = "sample_externals\<lparr>color_parse := (\<lambda>s. True), hljs := None\<rparr>"]
  note m2 = convertContent_first_match [where ext = sample_externals and cfg = sample_settings
        and cfg' = sample_settings and t = "''a''"
        and ext' = "sample_externals\<lparr>color_parse := (\<lambda>s. True), hljs := None\<rparr>"]
  note m3 = convertContent_first_match [where ext = sample_externals and cfg = sample_settings
        and cfg' = sample_settings and t = "'' #ff0000 ''"
        and ext' = "sample_externals\<lparr>hljs := None\<rparr>"]
  note m4 = convertContent_first_match [where ext = sample_externals and cfg = sample_settings
        and cfg' = sample_settings and t = "''SELECT 1;''"
        and ext' = "sample_externals\<lparr>uri_is_valid := (\<lambda>s. Inr True), hljs := None\<rparr>"
        and mt = "''image/png''" and d = "[137, 80]" and c = "''md5:xx''"]
  note m5 = convertContent_first_match [where ext = sample_externals and cfg = sample_settings
        and t = "''hello world''"]
  note c1 = conjunct1
  note c2 = conjunct2
  have w1: "item_type (convertContent sample_externals sample_settings (TextContent ''http://a.b'')) = Some ItemType.Link"
    using m1 [THEN c1] link by (rule mp)
  have w1': "convertContent (sample_externals\<lparr>color_parse := (\<lambda>s. True), hljs := None\<rparr>) sample_settings
       (TextContent ''http://a.b'') =
     convertContent sample_externals sample_settings (TextContent ''http://a.b'')"
    using m1 [THEN c2, THEN c2, THEN c2, THEN c2, THEN c2, THEN c1] conjI [OF link same(1)] by (rule mp)
  have w2: "item_type (convertContent sample_externals sample_settings (TextContent ''a'')) = Some ItemType.Character"
    using m2 [THEN c2, THEN c1] conjI [OF character] by (rule mp)
  have w2': "convertContent (sample_externals\<lparr>color_parse := (\<lambda>s. True), hljs := None\<rparr>) sample_settings
       (TextContent ''a'') =
     convertContent sample_externals sample_settings (TextContent ''a'')"
    using m2 [THEN c2, THEN c2, THEN c2, THEN c2, THEN c2, THEN c2, THEN c1] character same(1,2)
    by simp
  have w3: "item_type (convertContent sample_externals sample_settings (TextContent '' #ff0000 '')) = Some ItemType.Color"
    using m3 [THEN c2, THEN c2, THEN c1] color by simp
  have w3': "convertContent (sample_externals\<lparr>hljs := None\<rparr>) sample_settings (TextContent '' #ff0000 '') =
     convertContent sample_externals sample_settings (TextContent '' #ff0000 '')"
    using m3 [THEN c2, THEN c2, THEN c2, THEN c2, THEN c2, THEN c2, THEN c2, THEN c1] color same(3,4,5)
    by simp
  have w4: "item_type (convertContent sample_externals sample_settings (TextContent ''SELECT 1;'')) = Some ItemType.Code"
    using m4 [THEN c2, THEN c2, THEN c2, THEN c1] code by simp
  have w4': "convertContent (sample_externals\<lparr>uri_is_valid := (\<lambda>s. Inr True), hljs := None\<rparr>) sample_settings
       (ImageContent ''image/png'' [137, 80] ''md5:xx'') =
     convertContent sample_externals sample_settings (ImageContent ''image/png'' [137, 80] ''md5:xx'')"
    using m4 [THEN c2, THEN c2, THEN c2, THEN c2, THEN c2, THEN c2, THEN c2, THEN c2, THEN c1] same(6)
    by (rule mp)
  have w5: "item_type (convertContent sample_externals sample_settings (TextContent ''hello world'')) = Some ItemType.Text"
    using m5 [THEN c2, THEN c2, THEN c2, THEN c2, THEN c1] plain by simp
  show ?thesis
    using w1 w1' w2 w2' w3 w3' w4 w4' w5 by (intro conjI)
qed

subsection \<open>Character\<close>

text \<open>
  Claim C5 as stated fails: the Link heuristic runs before the Character heuristic.
  With the maximum set to 10, the ten characters \<^verbatim>\<open>http://a.b\<close> are within the
  threshold and are classified Link, not Character.
\<close>

theorem short_link_is_not_character:
  "int (length (segmenter sample_externals (trim ''http://a.b'')))
     \<le> max_characters (sample_settings\<lparr>max_characters := 10\<rparr>) \<and>
   item_type (convertContent sample_externals (sample_settings\<lparr>max_characters := 10\<rparr>)
     (TextContent ''http://a.b'')) = Some ItemType.Link \<and>
   item_type (convertContent sample_externals (sample_settings\<lparr>max_characters := 10\<rparr>)
     (TextContent ''http://a.b'')) \<noteq> Some ItemType.Character"
  by (simp add: trim_samples item_type_def is_link_def startsWith_def sample_externals_def)

text \<open>
  Claim C5, amended. Every text that the Link heuristic does not match (the trimmed
  text does not start with \<^verbatim>\<open>http\<close>, or is not a valid URI) and whose trimmed
  content has no more grapheme clusters than the configured maximum is classified
  Character. What is counted is the clusters the segmenter returns, not the code
  units of the string.
\<close>

theorem character_classification:
  assumes "\<not> (startsWith (trim t) ''http'' \<and> uri_is_valid ext (trim t) = Inr True)"
    and "int (length (segmenter ext (trim t))) \<le> max_characters cfg"
  shows "convertContent ext cfg (TextContent t) = Some (ItemType.Character, t, None)"
proof -
  have "\<not> is_link ext (trim t)"
    using assms(1) by (simp add: is_link_iff)
  moreover have "is_character ext cfg (trim t)"
    using assms(2) by (simp add: is_character_iff)
  ultimately show ?thesis
    by (rule convert_character)
qed

lemma trim_crlf: "trim [CHR ''a'', CHR 0x0D, CHR 0x0A, CHR ''b''] = [CHR ''a'', CHR 0x0D, CHR 0x0A, CHR ''b'']"
  by code_simp

theorem character_classification_witness:
  "length (trim [CHR ''a'', CHR 0x0D, CHR 0x0A, CHR ''b'']) = 4 \<and>
   length (segmenter sample_externals (trim [CHR ''a'', CHR 0x0D, CHR 0x0A, CHR ''b''])) = 3 \<and>
   convertContent sample_externals (sample_settings\<lparr>max_characters := 3\<rparr>)
     (TextContent [CHR ''a'', CHR 0x0D, CHR 0x0A, CHR ''b'']) =
     Some (ItemType.Character, [CHR ''a'', CHR 0x0D, CHR 0x0A, CHR ''b''], None)"
proof -
  have clusters: "length (segmenter sample_externals (trim [CHR ''a'', CHR 0x0D, CHR 0x0A, CHR ''b''])) = 3"
    by (simp add: trim_crlf sample_externals_def)
  have no_link: "\<not> (startsWith (trim [CHR ''a'', CHR 0x0D, CHR 0x0A, CHR ''b'']) ''http'' \<and>
      uri_is_valid sample_externals (trim [CHR ''a'', CHR 0x0D, CHR 0x0A, CHR ''b'']) = Inr True)"
    by (simp add: trim_crlf startsWith_def)
  have few: "int (length (segmenter sample_externals (trim [CHR ''a'', CHR 0x0D, CHR 0x0A, CHR ''b''])))
      \<le> max_characters (sample_settings\<lparr>max_characters := 3\<rparr>)"
    using clusters by simp
  show ?thesis
    using character_classification [OF no_link few] clusters by (simp add: trim_crlf)
qed

subsection \<open>Code\<close>

text \<open>
  Claim C6 as stated fails: a text that an earlier heuristic matches is not classified
  Code, whatever the detector says. With the maximum of the Character heuristic set to
  10, the nine characters \<^verbatim>\<open>SELECT 1;\<close> are classified Character although the
  detector is loaded, identifies a language and reports a normalized relevance of 5.
\<close>

theorem short_code_is_character:
  "hljs sample_externals = Some sample_hljs \<and>
   language (highlightAuto sample_hljs (take 10000 (trim ''SELECT 1;''))) = Some ''sql'' \<and>
   of_int (relevance (highlightAuto sample_hljs (take 10000 (trim ''SELECT 1;''))))
     / max 1 (of_nat (length (take 10000 (trim ''SELECT 1;''))) / 100) \<ge> (3::rat) \<and>
   item_type (convertContent sample_externals (sample_settings\<lparr>max_characters := 10\<rparr>)
     (TextContent ''SELECT 1;'')) = Some ItemType.Character \<and>
   item_type (convertContent sample_externals (sample_settings\<lparr>max_characters := 10\<rparr>)
     (TextContent ''SELECT 1;'')) \<noteq> Some ItemType.Code"
proof -
  have "\<not> is_link sample_externals (trim ''SELECT 1;'')"
    by (simp add: trim_samples is_link_def startsWith_def)
  moreover have "is_character sample_externals (sample_settings\<lparr>max_characters := 10\<rparr>)
      (trim ''SELECT 1;'')"
    by (simp add: trim_samples is_character_iff sample_externals_def)
  ultimately have "convertContent sample_externals (sample_settings\<lparr>max_characters := 10\<rparr>)
      (TextContent ''SELECT 1;'') = Some (ItemType.Character, ''SELECT 1;'', None)"
    by (rule convert_character)
  moreover have "hljs sample_externals = Some sample_hljs"
    by (simp add: sample_externals_def)
  moreover have "highlightAuto sample_hljs (take 10000 (trim ''SELECT 1;''))
      = \<lparr>language = Some ''sql'', relevance = 5\<rparr>"
    by (simp add: trim_samples sample_hljs_def startsWith_def)
  moreover have "length (take 10000 (trim ''SELECT 1;'')) = 9"
    by (simp add: trim_samples)
  ultimately show ?thesis
    by (simp add: item_type_def)
qed

lemma detect_code_Some_iff:
  "detect_code ext trimmed \<noteq> None \<longleftrightarrow>
     (\<exists>h ident. hljs ext = Some h \<and>
        language (highlightAuto h (take 10000 trimmed)) = Some ident \<and> ident \<noteq> [] \<and>
        of_int (relevance (highlightAuto h (take 10000 trimmed)))
          / max 1 (of_nat (length (take 10000 trimmed)) / 100) \<ge> (3::rat))"
  using detect_code_iff [of ext trimmed] by (cases "detect_code ext trimmed") auto

lemma item_type_Some: "item_type r = Some ty \<longleftrightarrow> (\<exists>c md. r = Some (ty, c, md))"
  by (cases r) (auto simp: item_type_def)

lemma normalized_fifty:
  "length sliced = 50 \<Longrightarrow> relevance r = 2 \<Longrightarrow> normalized_relevance sliced r = 2"
  by (simp add: normalized_relevance_def)

text \<open>
  Claim C6, amended. A text payload is classified Code only when the detector is
  loaded, identifies a language on at most the first 10,000 characters of the trimmed
  text, and its relevance divided by \<open>max 1 (sampleLength / 100)\<close> is at least 3. A
  text that none of the heuristics Link, Character and Color matches is classified Code
  whenever these hold, and Text otherwise. For a sample of 50 characters with relevance
  2 the normalized score is 2, and such a text is classified Text when none of the
  earlier heuristics matches. The quotient of the source is a double; for an integer
  relevance and a sample of at most 10,000 characters it compares with 3 as the
  rational quotient does.
\<close>

theorem code_classification:
  "(item_type (convertContent ext cfg (TextContent t)) = Some ItemType.Code \<longrightarrow>
      (\<exists>h ident. hljs ext = Some h \<and>
         language (highlightAuto h (take 10000 (trim t))) = Some ident \<and> ident \<noteq> [] \<and>
         of_int (relevance (highlightAuto h (take 10000 (trim t))))
           / max 1 (of_nat (length (take 10000 (trim t))) / 100) \<ge> (3::rat))) \<and>
   (\<not> is_link ext (trim t) \<and> \<not> is_character ext cfg (trim t) \<and> \<not> color_parse ext (trim t) \<and>
    hljs ext = Some h \<and> language (highlightAuto h (take 10000 (trim t))) = Some ident \<and>
    ident \<noteq> [] \<and>
    of_int (relevance (highlightAuto h (take 10000 (trim t))))
      / max 1 (of_nat (length (take 10000 (trim t))) / 100) \<ge> (3::rat) \<longrightarrow>
      item_type (convertContent ext cfg (TextContent t)) = Some ItemType.Code) \<and>
   (\<not> is_link ext (trim t) \<and> \<not> is_character ext cfg (trim t) \<and> \<not> color_parse ext (trim t) \<and>
    item_type (convertContent ext cfg (TextContent t)) \<noteq> Some ItemType.Code \<longrightarrow>
      item_type (convertContent ext cfg (TextContent t)) = Some ItemType.Text) \<and>
   (\<not> is_link ext (trim t) \<and> \<not> is_character ext cfg (trim t) \<and> \<not> color_parse ext (trim t) \<and>
    hljs ext = Some h \<and> length (take 10000 (trim t)) = 50 \<and>
    relevance (highlightAuto h (take 10000 (trim t))) = 2 \<longrightarrow>
      normalized_relevance (take 10000 (trim t)) (highlightAuto h (take 10000 (trim t))) = 2 \<and>
      item_type (convertContent ext cfg (TextContent t)) = Some ItemType.Text)"
proof (intro conjI impI)
  show "\<exists>h ident. hljs ext = Some h \<and>
         language (highlightAuto h (take 10000 (trim t))) = Some ident \<and> ident \<noteq> [] \<and>
         of_int (relevance (highlightAuto h (take 10000 (trim t))))
           / max 1 (of_nat (length (take 10000 (trim t))) / 100) \<ge> (3::rat)"
    if is_code: "item_type (convertContent ext cfg (TextContent t)) = Some ItemType.Code"
  proof -
    obtain c md where "convertContent ext cfg (TextContent t) = Some (ItemType.Code, c, md)"
      using is_code unfolding item_type_Some by blast
    then have "detect_code ext (trim t) \<noteq> None"
      using convert_text_cases [of ext cfg t ItemType.Code c md] by simp
    then show ?thesis
      by (simp only: detect_code_Some_iff)
  qed
  show "item_type (convertContent ext cfg (TextContent t)) = Some ItemType.Code"
    if "\<not> is_link ext (trim t) \<and> \<not> is_character ext cfg (trim t) \<and> \<not> color_parse ext (trim t) \<and>
        hljs ext = Some h \<and> language (highlightAuto h (take 10000 (trim t))) = Some ident \<and>
        ident \<noteq> [] \<and>
        of_int (relevance (highlightAuto h (take 10000 (trim t))))
          / max 1 (of_nat (length (take 10000 (trim t))) / 100) \<ge> (3::rat)"
  proof -
    have "detect_code ext (trim t) = Some (h, ident)"
      using that by (simp only: detect_code_iff) simp
    then show ?thesis
      using that by (simp add: item_type_def)
  qed
  show "item_type (convertContent ext cfg (TextContent t)) = Some ItemType.Text"
    if "\<not> is_link ext (trim t) \<and> \<not> is_character ext cfg (trim t) \<and> \<not> color_parse ext (trim t) \<and>
        item_type (convertContent ext cfg (TextContent t)) \<noteq> Some ItemType.Code"
    using that by (auto simp: item_type_def split: option.splits)
  show "normalized_relevance (take 10000 (trim t)) (highlightAuto h (take 10000 (trim t))) = 2"
    if "\<not> is_link ext (trim t) \<and> \<not> is_character ext cfg (trim t) \<and> \<not> color_parse ext (trim t) \<and>
        hljs ext = Some h \<and> length (take 10000 (trim t)) = 50 \<and>
        relevance (highlightAuto h (take 10000 (trim t))) = 2"
    using that by (intro normalized_fifty) simp_all
  show "item_type (convertContent ext cfg (TextContent t)) = Some ItemType.Text"
    if "\<not> is_link ext (trim t) \<and> \<not> is_character ext cfg (trim t) \<and> \<not> color_parse ext (trim t) \<and>
        hljs ext = Some h \<and> length (take 10000 (trim t)) = 50 \<and>
        relevance (highlightAuto h (take 10000 (trim t))) = 2"
  proof -
    have "normalized_relevance (take 10000 (trim t)) (highlightAuto h (take 10000 (trim t))) = 2"
      using that by (intro normalized_fifty) simp_all
    then have "detect_code ext (trim t) = None"
      using that by (simp add: detect_code_def Let_def split: option.splits)
    then show ?thesis
      using that by (simp add: item_type_def)
  qed
qed

lemma trim_more_samples:
  "trim ''[section] key=value name=copyous mode=clipboard ok''
     = ''[section] key=value name=copyous mode=clipboard ok''"
  "trim ''<a><b/></a>'' = ''<a><b/></a>''"
  by code_simp+

theorem code_classification_witness:
  "item_type (convertContent sample_externals sample_settings (TextContent ''SELECT 1;''))
     = Some ItemType.Code \<and>
   normalized_relevance
     (take 10000 (trim ''[section] key=value name=copyous mode=clipboard ok''))
     \<lparr>language = Some ''ini'', relevance = 2\<rparr> = 2 \<and>
   item_type (convertContent
     (sample_externals\<lparr>hljs := Some \<lparr>highlightAuto = (\<lambda>s. \<lparr>language = Some ''ini'', relevance = 2\<rparr>),
                                        getLanguage_name = (\<lambda>i. None)\<rparr>\<rparr>)
     sample_settings (TextContent ''[section] key=value name=copyous mode=clipboard ok''))
     = Some ItemType.Text"
proof -
  have earlier: "\<not> is_link sample_externals (trim ''SELECT 1;'')"
    "\<not> is_character sample_externals sample_settings (trim ''SELECT 1;'')"
    "\<not> color_parse sample_externals (trim ''SELECT 1;'')"
    by (simp_all add: trim_samples is_link_def is_character_iff startsWith_def
        sample_externals_def sample_settings_def)
  have detector: "hljs sample_externals = Some sample_hljs"
    "language (highlightAuto sample_hljs (take 10000 (trim ''SELECT 1;''))) = Some ''sql''"
    "relevance (highlightAuto sample_hljs (take 10000 (trim ''SELECT 1;''))) = 5"
    "length (take 10000 (trim ''SELECT 1;'')) = 9"
    by (simp_all add: trim_samples sample_externals_def sample_hljs_def startsWith_def)
  have code: "item_type (convertContent sample_externals sample_settings (TextContent ''SELECT 1;''))
     = Some ItemType.Code"
    using code_classification [where ext = sample_externals and cfg = sample_settings
        and t = "''SELECT 1;''" and h = sample_hljs and ident = "''sql''",
        THEN conjunct2, THEN conjunct1]
      earlier detector
    by simp
  let ?ini = "\<lparr>highlightAuto = (\<lambda>s. \<lparr>language = Some ''ini'', relevance = 2\<rparr>),
               getLanguage_name = (\<lambda>i. None)\<rparr>"
  let ?ext = "sample_externals\<lparr>hljs := Some ?ini\<rparr>"
  let ?t = "''[section] key=value name=copyous mode=clipboard ok''"
  have earlier': "\<not> is_link ?ext (trim ?t)"
    "\<not> is_character ?ext sample_settings (trim ?t)"
    "\<not> color_parse ?ext (trim ?t)"
    by (simp_all add: trim_more_samples is_link_def is_character_iff startsWith_def
        sample_externals_def sample_settings_def)
  have detector': "hljs ?ext = Some ?ini" "length (take 10000 (trim ?t)) = 50"
    "relevance (highlightAuto ?ini (take 10000 (trim ?t))) = 2"
    by (simp_all add: trim_more_samples)
  have fifty: "normalized_relevance (take 10000 (trim ?t))
       (highlightAuto ?ini (take 10000 (trim ?t))) = 2 \<and>
     item_type (convertContent ?ext sample_settings (TextContent ?t)) = Some ItemType.Text"
    using code_classification [where ext = ?ext and cfg = sample_settings
        and t = ?t and h = ?ini, THEN conjunct2, THEN conjunct2, THEN conjunct2]
      earlier' detector'
    by blast
  show ?thesis
    using code fifty by simp
qed

subsection \<open>The display name of a detected language\<close>

text \<open>
  Claim C2 as stated fails: the source compares the other way round. For the id
  \<^verbatim>\<open>xml\<close>, whose name in the detector is \<^verbatim>\<open>HTML, XML\<close>, the specification's rule
  gives the detector's name and the code gives a name made from the id; for the id
  \<^verbatim>\<open>sql\<close> with the name \<^verbatim>\<open>SQL\<close> the specification's rule gives the capitalized
  id and the code gives the detector's name.
\<close>

theorem display_name_differs:
  "convertContent sample_externals sample_settings (TextContent ''<a><b/></a>'') =
     Some (ItemType.Code, ''<a><b/></a>'', Some (Language ''xml'' ''xml'')) \<and>
   getLanguage_name sample_hljs ''xml'' = Some ''HTML, XML'' \<and>
   spec_display_name ''xml'' ''HTML, XML'' = ''HTML, XML'' \<and>
   convertContent sample_externals sample_settings (TextContent ''SELECT 1;'') =
     Some (ItemType.Code, ''SELECT 1;'', Some (Language ''sql'' ''SQL'')) \<and>
   getLanguage_name sample_hljs ''sql'' = Some ''SQL'' \<and>
   spec_display_name ''sql'' ''SQL'' = ''Sql''"
proof -
  have xml: "\<not> is_link sample_externals (trim ''<a><b/></a>'')"
    "\<not> is_character sample_externals sample_settings (trim ''<a><b/></a>'')"
    "\<not> color_parse sample_externals (trim ''<a><b/></a>'')"
    "detect_code sample_externals (trim ''<a><b/></a>'') = Some (sample_hljs, ''xml'')"
    by (simp_all add: trim_more_samples is_link_def is_character_iff startsWith_def
        detect_code_def normalized_relevance_def
        sample_externals_def sample_settings_def sample_hljs_def)
  have sql: "\<not> is_link sample_externals (trim ''SELECT 1;'')"
    "\<not> is_character sample_externals sample_settings (trim ''SELECT 1;'')"
    "\<not> color_parse sample_externals (trim ''SELECT 1;'')"
    "detect_code sample_externals (trim ''SELECT 1;'') = Some (sample_hljs, ''sql'')"
    by (simp_all add: trim_samples is_link_def is_character_iff startsWith_def
        detect_code_def normalized_relevance_def
        sample_externals_def sample_settings_def sample_hljs_def)
  have names: "code_metadata sample_hljs ''xml'' = Language ''xml'' ''xml''"
    "code_metadata sample_hljs ''sql'' = Language ''sql'' ''SQL''"
    "getLanguage_name sample_hljs ''xml'' = Some ''HTML, XML''"
    "getLanguage_name sample_hljs ''sql'' = Some ''SQL''"
    by (simp_all add: code_metadata_def display_name_def sample_hljs_def)
  have spec: "spec_display_name ''xml'' ''HTML, XML'' = ''HTML, XML''"
    "spec_display_name ''sql'' ''SQL'' = ''Sql''"
    by (simp_all add: spec_display_name_def capitalized_def toUpperCase_def)
  show ?thesis
    using convert_code [OF xml] convert_code [OF sql] names spec by simp
qed

text \<open>
  Claim C2, amended. When a text payload is classified Code, the metadata holds the
  id of the detected language and a display name: the detector's name for the language
  (the id when the detector has none), unless the id is more than 3 characters shorter
  than that name; then the display name is made from the id, with the length of the id
  and equal to it from the second character on.
\<close>

theorem display_name_choice:
  assumes "convertContent ext cfg (TextContent t) = Some (ItemType.Code, c, md)"
  shows "\<exists>h ident shown.
     hljs ext = Some h \<and> language (highlightAuto h (take 10000 (trim t))) = Some ident \<and>
     md = Some (Language ident shown) \<and>
     (if int (length ident)
           < int (length (case getLanguage_name h ident of None \<Rightarrow> ident | Some n \<Rightarrow> n)) - 3
      then length shown = length ident \<and> drop 1 shown = drop 1 ident
      else shown = (case getLanguage_name h ident of None \<Rightarrow> ident | Some n \<Rightarrow> n))"
proof -
  have stage: "\<not> is_link ext (trim t)" "\<not> is_character ext cfg (trim t)"
    "\<not> color_parse ext (trim t)" "detect_code ext (trim t) \<noteq> None"
    using convert_text_cases [OF assms] by simp_all
  then obtain h ident where found: "detect_code ext (trim t) = Some (h, ident)"
    by (cases "detect_code ext (trim t)") auto
  then have md: "md = Some (code_metadata h ident)"
    using convert_code [OF stage(1-3) found] assms by simp
  have "hljs ext = Some h" "language (highlightAuto h (take 10000 (trim t))) = Some ident"
    using found by (simp_all only: detect_code_iff)
  moreover have "md = Some (Language ident
      (display_name ident (case getLanguage_name h ident of None \<Rightarrow> ident | Some n \<Rightarrow> n)))"
    using md by (simp add: code_metadata_def)
  moreover have "length (display_name ident name) = length ident \<and>
      drop 1 (display_name ident name) = drop 1 ident"
    if "int (length ident) < int (length name) - 3" for name
    using that by (simp add: display_name_def)
  moreover have "display_name ident name = name"
    if "\<not> int (length ident) < int (length name) - 3" for name
    using that by (simp add: display_name_def)
  ultimately show ?thesis
    by (intro exI [of _ h] exI [of _ ident]
        exI [of _ "display_name ident (case getLanguage_name h ident of None \<Rightarrow> ident | Some n \<Rightarrow> n)"])
      simp
qed

theorem display_name_choice_witness:
  "convertContent sample_externals sample_settings (TextContent ''SELECT 1;'') =
     Some (ItemType.Code, ''SELECT 1;'', Some (Language ''sql'' ''SQL'')) \<and>
   (\<exists>h ident shown.
     hljs sample_externals = Some h \<and>
     language (highlightAuto h (take 10000 (trim ''SELECT 1;''))) = Some ident \<and>
     Some (Language ''sql'' ''SQL'') = Some (Language ident shown) \<and>
     (if int (length ident)
           < int (length (case getLanguage_name h ident of None \<Rightarrow> ident | Some n \<Rightarrow> n)) - 3
      then length shown = length ident \<and> drop 1 shown = drop 1 ident
      else shown = (case getLanguage_name h ident of None \<Rightarrow> ident | Some n \<Rightarrow> n)))"
proof -
  have sql: "\<not> is_link sample_externals (trim ''SELECT 1;'')"
    "\<not> is_character sample_externals sample_settings (trim ''SELECT 1;'')"
    "\<not> color_parse sample_externals (trim ''SELECT 1;'')"
    "detect_code sample_externals (trim ''SELECT 1;'') = Some (sample_hljs, ''sql'')"
    by (simp_all add: trim_samples is_link_def is_character_iff startsWith_def
        detect_code_def normalized_relevance_def
        sample_externals_def sample_settings_def sample_hljs_def)
  have "code_metadata sample_hljs ''sql'' = Language ''sql'' ''SQL''"
    by (simp add: code_metadata_def display_name_def sample_hljs_def)
  then have code: "convertContent sample_externals sample_settings (TextContent ''SELECT 1;'') =
     Some (ItemType.Code, ''SELECT 1;'', Some (Language ''sql'' ''SQL''))"
    using convert_code [OF sql] by simp
  show ?thesis
    using code display_name_choice [OF code] by (intro conjI)
qed

subsection \<open>Auxiliary facts about ownership changes\<close>

lemma shouldSave_iff:
  "shouldSave cfg \<longleftrightarrow>
     \<not> incognito cfg \<and>
     \<not> (\<exists>w. focus_window cfg = Some w \<and> w \<in> set (wmclass_exclusions cfg))"
  by (auto simp: shouldSave_def array_includes_iff split: option.splits)

lemma is_duplicate_iff:
  "is_duplicate m content checksum \<longleftrightarrow>
     (\<exists>kind. prevClipboard m = Some (kind, checksum) \<and>
        (kind = content_type content \<or>
         kind = ContentType.File \<and> content_type content = ContentType.Text))"
  by (auto simp: is_duplicate_def split: option.splits)

lemma ownerChanged_suppressed:
  assumes "getContent ext sel = Some content"
    and "contentChecksum ext content = Inr (Some checksum)"
    and "is_duplicate m content checksum"
  shows "ownerChanged ext cfg sel selectionType m = m"
  using assms by (simp add: ownerChanged_def)

lemma ownerChanged_commits:
  assumes "getContent ext sel = Some content"
    and "contentChecksum ext content = Inr (Some checksum)"
    and "checksum \<noteq> []"
    and "\<not> is_duplicate m content checksum"
  shows "prevClipboard (ownerChanged ext cfg sel SELECTION_CLIPBOARD m)
     = Some (content_type content, checksum)"
  using assms
  by (simp add: ownerChanged_def Let_def split: option.splits sum.splits prod.splits)

lemma ownerChanged_vetoed:
  assumes "\<not> shouldSave cfg"
  shows "tracker_inserts (ownerChanged ext cfg sel selectionType m) = tracker_inserts m \<and>
     signals (ownerChanged ext cfg sel selectionType m) = signals m"
  using assms
  by (simp add: ownerChanged_def Let_def split: option.splits sum.splits)

lemma ownerChanged_twice:
  assumes "\<not> shouldSave cfg1"
  shows "tracker_inserts (ownerChanged ext cfg2 sel selectionType
            (ownerChanged ext cfg1 sel selectionType m)) = tracker_inserts m \<and>
         signals (ownerChanged ext cfg2 sel selectionType
            (ownerChanged ext cfg1 sel selectionType m)) = signals m"
proof (cases "selectionType = SELECTION_CLIPBOARD")
  case False
  then show ?thesis by (simp add: ownerChanged_def)
next
  case clipboard: True
  show ?thesis
  proof (cases "getContent ext sel")
    case None
    then show ?thesis by (simp add: ownerChanged_def)
  next
    case (Some content)
    show ?thesis
    proof (cases "contentChecksum ext content")
      case (Inl e)
      then show ?thesis using Some by (simp add: ownerChanged_def)
    next
      case (Inr found)
      show ?thesis
      proof (cases found)
        case None
        then show ?thesis using Some Inr by (simp add: ownerChanged_def)
      next
        case checksum: (Some checksum)
        show ?thesis
        proof (cases "checksum = [] \<or> is_duplicate m content checksum")
          case True
          then have "ownerChanged ext cfg1 sel selectionType m = m"
            "ownerChanged ext cfg2 sel selectionType m = m"
            using Some Inr checksum by (auto simp: ownerChanged_def)
          then show ?thesis by simp
        next
          case False
          then have first: "ownerChanged ext cfg1 sel selectionType m
              = m\<lparr>prevClipboard := Some (content_type content, checksum)\<rparr>"
            using Some Inr checksum clipboard assms by (simp add: ownerChanged_def)
          have "is_duplicate (m\<lparr>prevClipboard := Some (content_type content, checksum)\<rparr>)
              content checksum"
            by (simp add: is_duplicate_def)
          then have "ownerChanged ext cfg2 sel selectionType
              (m\<lparr>prevClipboard := Some (content_type content, checksum)\<rparr>)
                = m\<lparr>prevClipboard := Some (content_type content, checksum)\<rparr>"
            using Some Inr checksum by (intro ownerChanged_suppressed) simp_all
          then show ?thesis using first by simp
        qed
      qed
    qed
  qed
qed

subsection \<open>Suppression of duplicates\<close>

text \<open>
  Claim C1. An ownership change whose payload has the kind and the fingerprint of the
  pair in \<^verbatim>\<open>prevClipboard\<close> is suppressed: the manager is left as it was, so
  \<^verbatim>\<open>tracker.insert\<close> is not called and no signal is emitted. The same holds when the
  pair's kind is File and the payload is Text with the same fingerprint.
\<close>

theorem ownerChanged_duplicate_suppressed:
  assumes "getContent ext sel = Some content"
    and "contentChecksum ext content = Inr (Some checksum)"
    and "prevClipboard m = Some (kind, checksum)"
    and "kind = content_type content \<or>
         kind = ContentType.File \<and> content_type content = ContentType.Text"
  shows "ownerChanged ext cfg sel selectionType m = m \<and>
         tracker_inserts (ownerChanged ext cfg sel selectionType m) = tracker_inserts m \<and>
         signals (ownerChanged ext cfg sel selectionType m) = signals m"
proof -
  have "is_duplicate m content checksum"
    using assms(3,4) by (auto simp: is_duplicate_iff)
  then have "ownerChanged ext cfg sel selectionType m = m"
    using assms(1,2) by (intro ownerChanged_suppressed)
  then show ?thesis by simp
qed

lemma text_selection_content:
  "getContent sample_externals (text_selection ''/home/u/a.txt'') = Some (TextContent ''/home/u/a.txt'')"
proof -
  have "trim ''/home/u/a.txt'' = ''/home/u/a.txt''"
    by code_simp
  then show ?thesis
    by (simp add: getContent_def text_selection_def MimeTypes_Sensitive_def MimeTypes_Image_def
        MimeTypes_File_def MimeTypes_Text_def array_includes_def)
qed

theorem ownerChanged_duplicate_suppressed_witness:
  "contentChecksum sample_externals (FileContent [''file:///home/u/a.txt''] Copy)
     = Inr (Some ''md5:/home/u/a.txt'') \<and>
   ownerChanged sample_externals sample_settings (text_selection ''/home/u/a.txt'') SELECTION_CLIPBOARD
     (new_manager\<lparr>prevClipboard := Some (ContentType.File, ''md5:/home/u/a.txt'')\<rparr>)
     = new_manager\<lparr>prevClipboard := Some (ContentType.File, ''md5:/home/u/a.txt'')\<rparr> \<and>
   ownerChanged sample_externals sample_settings (text_selection ''/home/u/a.txt'') SELECTION_CLIPBOARD
     (new_manager\<lparr>prevClipboard := Some (ContentType.Text, ''md5:/home/u/a.txt'')\<rparr>)
     = new_manager\<lparr>prevClipboard := Some (ContentType.Text, ''md5:/home/u/a.txt'')\<rparr> \<and>
   tracker_inserts (ownerChanged sample_externals sample_settings (text_selection ''/home/u/a.txt'')
     SELECTION_CLIPBOARD new_manager) = [(ItemType.Text, ''/home/u/a.txt'', None)]"
proof -
  have file_sum: "contentChecksum sample_externals (FileContent [''file:///home/u/a.txt''] Copy)
     = Inr (Some ''md5:/home/u/a.txt'')"
    by (simp add: sample_externals_def)
  have sum: "contentChecksum sample_externals (TextContent ''/home/u/a.txt'')
     = Inr (Some ''md5:/home/u/a.txt'')"
    by (simp add: sample_externals_def)
  have after_file: "ownerChanged sample_externals sample_settings (text_selection ''/home/u/a.txt'')
      SELECTION_CLIPBOARD
      (new_manager\<lparr>prevClipboard := Some (ContentType.File, ''md5:/home/u/a.txt'')\<rparr>)
     = new_manager\<lparr>prevClipboard := Some (ContentType.File, ''md5:/home/u/a.txt'')\<rparr>"
    using ownerChanged_duplicate_suppressed [OF text_selection_content sum,
        of "new_manager\<lparr>prevClipboard := Some (ContentType.File, ''md5:/home/u/a.txt'')\<rparr>"
          ContentType.File sample_settings SELECTION_CLIPBOARD]
    by simp
  have after_text: "ownerChanged sample_externals sample_settings (text_selection ''/home/u/a.txt'')
      SELECTION_CLIPBOARD
      (new_manager\<lparr>prevClipboard := Some (ContentType.Text, ''md5:/home/u/a.txt'')\<rparr>)
     = new_manager\<lparr>prevClipboard := Some (ContentType.Text, ''md5:/home/u/a.txt'')\<rparr>"
    using ownerChanged_duplicate_suppressed [OF text_selection_content sum,
        of "new_manager\<lparr>prevClipboard := Some (ContentType.Text, ''md5:/home/u/a.txt'')\<rparr>"
          ContentType.Text sample_settings SELECTION_CLIPBOARD]
    by simp
  have trimmed: "trim ''/home/u/a.txt'' = ''/home/u/a.txt''"
    by code_simp
  have stages: "\<not> is_link sample_externals (trim ''/home/u/a.txt'')"
    "\<not> is_character sample_externals sample_settings (trim ''/home/u/a.txt'')"
    "\<not> color_parse sample_externals (trim ''/home/u/a.txt'')"
    "detect_code sample_externals (trim ''/home/u/a.txt'') = None"
    by (simp_all add: trimmed is_link_def is_character_iff startsWith_def detect_code_def
        sample_externals_def sample_settings_def sample_hljs_def)
  have fresh: "tracker_inserts (ownerChanged sample_externals sample_settings
      (text_selection ''/home/u/a.txt'') SELECTION_CLIPBOARD new_manager)
     = [(ItemType.Text, ''/home/u/a.txt'', None)]"
    using text_selection_content sum convert_text [OF stages]
    by (simp add: ownerChanged_def is_duplicate_def new_manager_def shouldSave_def
        sample_settings_def sample_externals_def)
  show ?thesis
    using file_sum after_file after_text fresh by (intro conjI)
qed

subsection \<open>The dedup slot and the save policy\<close>

text \<open>
  Claim C10. A capture that is not suppressed writes the payload's kind and
  fingerprint to \<^verbatim>\<open>prevClipboard\<close> whatever the settings are, so also when saving
  is vetoed. When the capture happens under a veto (incognito is on, or the class of
  the focused window is in the exclusion list), nothing is inserted and nothing
  emitted, and an ownership change that reports the same content next, under any
  settings, inserts and emits nothing either.
\<close>

theorem veto_still_updates_dedup:
  "(getContent ext sel = Some content \<and> contentChecksum ext content = Inr (Some checksum) \<and>
    checksum \<noteq> [] \<and> \<not> is_duplicate m content checksum \<longrightarrow>
      prevClipboard (ownerChanged ext cfg sel SELECTION_CLIPBOARD m)
        = Some (content_type content, checksum)) \<and>
   (incognito vetoed \<or> (\<exists>w. focus_window vetoed = Some w \<and> w \<in> set (wmclass_exclusions vetoed)) \<longrightarrow>
      tracker_inserts (ownerChanged ext vetoed sel selectionType m) = tracker_inserts m \<and>
      signals (ownerChanged ext vetoed sel selectionType m) = signals m \<and>
      tracker_inserts (ownerChanged ext later sel selectionType
          (ownerChanged ext vetoed sel selectionType m)) = tracker_inserts m \<and>
      signals (ownerChanged ext later sel selectionType
          (ownerChanged ext vetoed sel selectionType m)) = signals m)"
proof (intro conjI impI)
  show "prevClipboard (ownerChanged ext cfg sel SELECTION_CLIPBOARD m)
        = Some (content_type content, checksum)"
    if "getContent ext sel = Some content \<and> contentChecksum ext content = Inr (Some checksum) \<and>
        checksum \<noteq> [] \<and> \<not> is_duplicate m content checksum"
    using that by (intro ownerChanged_commits) simp_all
next
  assume "incognito vetoed \<or> (\<exists>w. focus_window vetoed = Some w \<and> w \<in> set (wmclass_exclusions vetoed))"
  then have veto: "\<not> shouldSave vetoed"
    by (simp add: shouldSave_iff)
  show "tracker_inserts (ownerChanged ext vetoed sel selectionType m) = tracker_inserts m"
    "signals (ownerChanged ext vetoed sel selectionType m) = signals m"
    using ownerChanged_vetoed [OF veto] by simp_all
  show "tracker_inserts (ownerChanged ext later sel selectionType
          (ownerChanged ext vetoed sel selectionType m)) = tracker_inserts m"
    "signals (ownerChanged ext later sel selectionType
          (ownerChanged ext vetoed sel selectionType m)) = signals m"
    using ownerChanged_twice [OF veto] by simp_all
qed

theorem veto_still_updates_dedup_witness:
  "prevClipboard (ownerChanged sample_externals (sample_settings\<lparr>incognito := True\<rparr>)
      (text_selection ''/home/u/a.txt'') SELECTION_CLIPBOARD new_manager)
     = Some (ContentType.Text, ''md5:/home/u/a.txt'') \<and>
   tracker_inserts (ownerChanged sample_externals sample_settings
      (text_selection ''/home/u/a.txt'') SELECTION_CLIPBOARD
      (ownerChanged sample_externals (sample_settings\<lparr>incognito := True\<rparr>)
         (text_selection ''/home/u/a.txt'') SELECTION_CLIPBOARD new_manager)) = [] \<and>
   signals (ownerChanged sample_externals sample_settings
      (text_selection ''/home/u/a.txt'') SELECTION_CLIPBOARD
      (ownerChanged sample_externals (sample_settings\<lparr>incognito := True\<rparr>)
         (text_selection ''/home/u/a.txt'') SELECTION_CLIPBOARD new_manager)) = [] \<and>
   tracker_inserts (ownerChanged sample_externals sample_settings
      (text_selection ''/home/u/a.txt'') SELECTION_CLIPBOARD
      (ownerChanged sample_externals (sample_settings\<lparr>focus_window := Some ''KeePassXC''\<rparr>)
         (text_selection ''/home/u/a.txt'') SELECTION_CLIPBOARD new_manager)) = []"
proof -
  have sum: "contentChecksum sample_externals (TextContent ''/home/u/a.txt'')
     = Inr (Some ''md5:/home/u/a.txt'')"
    by (simp add: sample_externals_def)
  have fresh: "\<not> is_duplicate new_manager (TextContent ''/home/u/a.txt'') ''md5:/home/u/a.txt''"
    by (simp add: is_duplicate_def new_manager_def)
  have slot: "prevClipboard (ownerChanged sample_externals (sample_settings\<lparr>incognito := True\<rparr>)
      (text_selection ''/home/u/a.txt'') SELECTION_CLIPBOARD new_manager)
     = Some (ContentType.Text, ''md5:/home/u/a.txt'')"
    using veto_still_updates_dedup [where ext = sample_externals
        and sel = "text_selection ''/home/u/a.txt''" and content = "TextContent ''/home/u/a.txt''"
        and checksum = "''md5:/home/u/a.txt''" and m = new_manager
        and cfg = "sample_settings\<lparr>incognito := True\<rparr>", THEN conjunct1]
      text_selection_content sum fresh
    by simp
  have incognito: "incognito (sample_settings\<lparr>incognito := True\<rparr>)"
    by simp
  have excluded: "focus_window (sample_settings\<lparr>focus_window := Some ''KeePassXC''\<rparr>) = Some ''KeePassXC'' \<and>
      ''KeePassXC'' \<in> set (wmclass_exclusions (sample_settings\<lparr>focus_window := Some ''KeePassXC''\<rparr>))"
    by (simp add: sample_settings_def)
  have empty: "tracker_inserts new_manager = []" "signals new_manager = []"
    by (simp_all add: new_manager_def)
  have again: "tracker_inserts (ownerChanged sample_externals sample_settings
      (text_selection ''/home/u/a.txt'') SELECTION_CLIPBOARD
      (ownerChanged sample_externals (sample_settings\<lparr>incognito := True\<rparr>)
         (text_selection ''/home/u/a.txt'') SELECTION_CLIPBOARD new_manager)) = []"
    "signals (ownerChanged sample_externals sample_settings
      (text_selection ''/home/u/a.txt'') SELECTION_CLIPBOARD
      (ownerChanged sample_externals (sample_settings\<lparr>incognito := True\<rparr>)
         (text_selection ''/home/u/a.txt'') SELECTION_CLIPBOARD new_manager)) = []"
    using veto_still_updates_dedup [where ext = sample_externals
        and sel = "text_selection ''/home/u/a.txt''" and m = new_manager
        and vetoed = "sample_settings\<lparr>incognito := True\<rparr>" and later = sample_settings
        and selectionType = SELECTION_CLIPBOARD, THEN conjunct2]
      incognito empty
    by simp_all
  have again': "tracker_inserts (ownerChanged sample_externals sample_settings
      (text_selection ''/home/u/a.txt'') SELECTION_CLIPBOARD
      (ownerChanged sample_externals (sample_settings\<lparr>focus_window := Some ''KeePassXC''\<rparr>)
         (text_selection ''/home/u/a.txt'') SELECTION_CLIPBOARD new_manager)) = []"
  proof -
    have "incognito (sample_settings\<lparr>focus_window := Some ''KeePassXC''\<rparr>) \<or>
        (\<exists>w. focus_window (sample_settings\<lparr>focus_window := Some ''KeePassXC''\<rparr>) = Some w \<and>
           w \<in> set (wmclass_exclusions (sample_settings\<lparr>focus_window := Some ''KeePassXC''\<rparr>)))"
      using excluded by (intro disjI2 exI [of _ "''KeePassXC''"])
    then show ?thesis
      using veto_still_updates_dedup [where ext = sample_externals
          and sel = "text_selection ''/home/u/a.txt''" and m = new_manager
          and vetoed = "sample_settings\<lparr>focus_window := Some ''KeePassXC''\<rparr>"
          and later = sample_settings
          and selectionType = SELECTION_CLIPBOARD, THEN conjunct2, THEN mp]
        empty
      by simp
  qed
  show ?thesis
    using slot again again' by (intro conjI)
qed

subsection \<open>Auxiliary facts about delivery\<close>

lemma copyContent_empty_checksum:
  "copyContent ext cfg (ImageContent mt d []) m = Inr m"
  by (simp add: copyContent_def)

lemma pasteEntry_image_writes_nothing:
  assumes "entry_type entry = ItemType.Image"
    and "snd (pasteEntry ext cfg entry m) = Inr m1"
  shows "clipboard_writes m1 = clipboard_writes m \<and> prevClipboard m1 = prevClipboard m"
  using assms
  by (auto simp: pasteEntry_def pasteContent_def copyContent_empty_checksum timeout_add_def
      source_remove_def Let_def split: sum.splits option.splits if_splits)

subsection \<open>Replaying an image entry\<close>

text \<open>
  Claim C3 does not hold of the code. \<^verbatim>\<open>pasteEntry\<close> builds the image payload with
  the checksum \<^verbatim>\<open>''\<close>; \<^verbatim>\<open>copyContent\<close> reads the empty string as a missing
  checksum and returns before the clipboard is set. For an entry whose file loads and
  whose MIME type is found, nothing is written to the clipboard, while the paste
  keystrokes are still scheduled; \<^verbatim>\<open>copyPng\<close>, which computes the checksum, does
  deliver the same bytes.
\<close>

theorem replayed_image_is_not_delivered:
  "load_contents sample_externals (entry_content sample_image_entry) = Inr [137, 80, 78, 71] \<and>
   guess_mime_type sample_externals (entry_content sample_image_entry) [137, 80, 78, 71]
     = Some ''image/png'' \<and>
   snd (pasteEntry sample_externals sample_settings sample_image_entry new_manager)
     = Inr (new_manager\<lparr>pasteSignalId := 1, sources := [1], last_source := 1\<rparr>) \<and>
   clipboard_writes (new_manager\<lparr>pasteSignalId := 1, sources := [1], last_source := 1\<rparr>) = [] \<and>
   copyPng sample_externals sample_settings [137, 80, 78, 71] 1 1 new_manager
     = Inr (new_manager
         \<lparr>prevClipboard := Some (ContentType.Image, ''md5:xxxx''),
          clipboard_writes := [Set_content CLIPBOARD ''image/png'' [137, 80, 78, 71]],
          signals := [Image_signal [137, 80, 78, 71] 1 1]\<rparr>)"
  by (simp add: pasteEntry_def pasteContent_def copyContent_def copyPng_def timeout_add_def
      sample_image_entry_def sample_externals_def sample_settings_def new_manager_def)

subsection \<open>Auxiliary facts about the paste timer\<close>

lemma copyContent_timer:
  assumes "copyContent ext cfg content m = Inr after"
  shows "sources after = sources m \<and> pasteSignalId after = pasteSignalId m \<and>
         last_source after = last_source m \<and> key_events after = key_events m"
  using assms
  by (auto simp: copyContent_def Let_def
      split: sum.splits option.splits if_splits ClipboardContent.splits)

lemma one_pending_copyContent:
  "one_pending m \<Longrightarrow> copyContent ext cfg content m = Inr after \<Longrightarrow> one_pending after"
  using copyContent_timer [of ext cfg content m after] by (simp add: one_pending_def)

lemma pasteContent_disabled:
  assumes "\<not> paste_on_copy cfg" and "pasteContent ext cfg content m = Inr after"
  shows "sources after = sources m \<and> pasteSignalId after = pasteSignalId m \<and>
         last_source after = last_source m \<and> key_events after = key_events m"
proof -
  have "copyContent ext cfg content m = Inr after"
    using assms by (simp add: pasteContent_def split: sum.splits)
  then show ?thesis
    by (rule copyContent_timer)
qed

lemma pasteContent_enabled:
  assumes "paste_on_copy cfg" and "one_pending m" and "pasteContent ext cfg content m = Inr after"
  shows "sources after = [Suc (last_source m)] \<and> pasteSignalId after = int (Suc (last_source m)) \<and>
         last_source after = Suc (last_source m) \<and> key_events after = key_events m"
proof -
  obtain copied where copied: "copyContent ext cfg content m = Inr copied"
    using assms(3) by (auto simp: pasteContent_def split: sum.splits)
  note same = copyContent_timer [OF copied]
  have pending: "one_pending copied"
    using assms(2) copied by (rule one_pending_copyContent)
  define cleared where
    "cleared = (if pasteSignalId copied \<ge> 0
      then source_remove (pasteSignalId copied) copied else copied)"
  have cancelled: "sources cleared = []"
    using pending by (simp add: cleared_def one_pending_def source_remove_def)
  have rest: "last_source cleared = last_source m" "key_events cleared = key_events m"
    using same by (simp_all add: cleared_def source_remove_def)
  have "pasteContent ext cfg content m =
      Inr (cleared\<lparr>sources := sources cleared @ [Suc (last_source cleared)],
                    last_source := Suc (last_source cleared),
                    pasteSignalId := int (Suc (last_source cleared))\<rparr>)"
    using assms(1) copied by (simp add: pasteContent_def timeout_add_def Let_def cleared_def)
  then have "after = cleared\<lparr>sources := sources cleared @ [Suc (last_source cleared)],
                    last_source := Suc (last_source cleared),
                    pasteSignalId := int (Suc (last_source cleared))\<rparr>"
    using assms(3) by simp
  then show ?thesis
    using cancelled rest by simp
qed

lemma one_pending_pasteContent:
  assumes "one_pending m" and "pasteContent ext cfg content m = Inr after"
  shows "one_pending after"
proof (cases "paste_on_copy cfg")
  case True
  then show ?thesis
    using pasteContent_enabled [OF True assms] by (simp add: one_pending_def)
next
  case False
  then show ?thesis
    using pasteContent_disabled [OF False assms(2)] assms(1) by (simp add: one_pending_def)
qed

lemma one_pending_dispatch: "one_pending m \<Longrightarrow> one_pending (dispatch cfg ident m)"
  by (auto simp: one_pending_def dispatch_def array_includes_iff split: if_splits)

lemma one_pending_destroy: "one_pending m \<Longrightarrow> one_pending (destroy m)"
  by (auto simp: one_pending_def destroy_def source_remove_def Let_def split: if_splits)

lemma ownerChanged_timer:
  "sources (ownerChanged ext cfg sel selectionType m) = sources m \<and>
   pasteSignalId (ownerChanged ext cfg sel selectionType m) = pasteSignalId m"
  by (simp add: ownerChanged_def Let_def split: option.splits sum.splits prod.splits)

lemma one_pending_ownerChanged:
  "one_pending m \<Longrightarrow> one_pending (ownerChanged ext cfg sel selectionType m)"
  using ownerChanged_timer [of ext cfg sel selectionType m] by (simp add: one_pending_def)

lemma one_pending_copyText:
  "one_pending m \<Longrightarrow> copyText ext cfg s m = Inr after \<Longrightarrow> one_pending after"
  using copyContent_timer [of ext cfg "TextContent s" m]
  by (auto simp: copyText_def one_pending_def split: sum.splits)

lemma one_pending_copyPng:
  "one_pending m \<Longrightarrow> copyPng ext cfg d w h m = Inr after \<Longrightarrow> one_pending after"
  using copyContent_timer [of ext cfg _ m]
  by (auto simp: copyPng_def one_pending_def split: sum.splits option.splits if_splits)

lemma one_pending_pasteEntry:
  assumes "one_pending m" and "snd (pasteEntry ext cfg entry m) = Inr after"
  shows "one_pending after"
  using assms one_pending_pasteContent [of m ext cfg _ after]
  by (auto simp: pasteEntry_def Let_def split: ItemType.splits sum.splits option.splits if_splits)

lemma one_pending_step: "one_pending m \<Longrightarrow> one_pending (step ext m e)"
proof (cases e)
  case (CopyContent cfg content)
  assume "one_pending m"
  then show ?thesis
    using CopyContent one_pending_copyContent [of m ext cfg content]
    by (cases "copyContent ext cfg content m") (simp_all add: unchanged_on_error_def)
next
  case (PasteContent cfg content)
  assume "one_pending m"
  then show ?thesis
    using PasteContent one_pending_pasteContent [of m ext cfg content]
    by (cases "pasteContent ext cfg content m") (simp_all add: unchanged_on_error_def)
next
  case (CopyText cfg s)
  assume "one_pending m"
  then show ?thesis
    using CopyText one_pending_copyText [of m ext cfg s]
    by (cases "copyText ext cfg s m") (simp_all add: unchanged_on_error_def)
next
  case (CopyPng cfg d w h)
  assume "one_pending m"
  then show ?thesis
    using CopyPng one_pending_copyPng [of m ext cfg d w h]
    by (cases "copyPng ext cfg d w h m") (simp_all add: unchanged_on_error_def)
next
  case (PasteEntry cfg entry)
  assume "one_pending m"
  then show ?thesis
    using PasteEntry one_pending_pasteEntry [of m ext cfg entry]
    by (cases "snd (pasteEntry ext cfg entry m)") (simp_all add: unchanged_on_error_def)
next
  case (OwnerChanged cfg sel selectionType)
  assume "one_pending m"
  then show ?thesis
    using OwnerChanged by (simp add: one_pending_ownerChanged)
next
  case (Dispatch cfg ident)
  assume "one_pending m"
  then show ?thesis
    using Dispatch by (simp add: one_pending_dispatch)
next
  case Destroy
  assume "one_pending m"
  then show ?thesis
    using Destroy by (simp add: one_pending_destroy)
qed

lemma one_pending_foldl: "one_pending m \<Longrightarrow> one_pending (foldl (step ext) m events)"
  by (induction events arbitrary: m) (simp_all add: one_pending_step)

lemma one_pending_run: "one_pending (run ext events)"
  unfolding run_def by (rule one_pending_foldl) (simp add: one_pending_def new_manager_def)

lemma one_pending_length: "one_pending m \<Longrightarrow> length (sources m) \<le> 1"
  by (simp add: one_pending_def split: if_splits)

lemma dispatch_pending:
  assumes "sources m = [ident]"
  shows "key_events (dispatch cfg ident m) = key_events m @ paste_keys (purpose_terminal cfg) \<and>
         sources (dispatch cfg ident m) = [] \<and> pasteSignalId (dispatch cfg ident m) = - 1"
  using assms by (simp add: dispatch_def array_includes_iff)

lemma dispatch_absent: "ident \<notin> set (sources m) \<Longrightarrow> dispatch cfg ident m = m"
  by (simp add: dispatch_def array_includes_iff)

lemma two_pastes:
  assumes "one_pending m" and "paste_on_copy first_cfg"
    and "pasteContent ext first_cfg first_content m = Inr between"
    and "pasteContent ext second_cfg second_content between = Inr final"
  shows "key_events (dispatch_all fire_cfg (sources between @ sources final) final)
     = key_events m @ paste_keys (purpose_terminal fire_cfg)"
proof -
  note first = pasteContent_enabled [OF assms(2,1,3)]
  have pending: "one_pending between"
    using assms(1,3) by (rule one_pending_pasteContent)
  show ?thesis
  proof (cases "paste_on_copy second_cfg")
    case True
    note second = pasteContent_enabled [OF True pending assms(4)]
    have "dispatch fire_cfg (Suc (last_source m)) final = final"
      using first second by (intro dispatch_absent) simp
    moreover have "key_events (dispatch fire_cfg (Suc (Suc (last_source m))) final)
        = key_events m @ paste_keys (purpose_terminal fire_cfg)"
      using dispatch_pending [of final "Suc (Suc (last_source m))" fire_cfg] first second by simp
    ultimately show ?thesis
      using first second by simp
  next
    case False
    note second = pasteContent_disabled [OF False assms(4)]
    have still: "sources final = [Suc (last_source m)]"
      using first second by simp
    note fired = dispatch_pending [OF still, of fire_cfg]
    have "dispatch fire_cfg (Suc (last_source m)) (dispatch fire_cfg (Suc (last_source m)) final)
        = dispatch fire_cfg (Suc (last_source m)) final"
      using fired by (intro dispatch_absent) simp
    then show ?thesis
      using first second still fired by simp
  qed
qed

subsection \<open>The pending paste timer\<close>

text \<open>
  Claim C9 as stated fails where the setting \<^verbatim>\<open>paste-on-copy\<close> is off, the gate in
  front of the timer in \<^verbatim>\<open>pasteContent\<close>. Two calls made with the setting off
  produce no keystroke sequence at all. A call made with the setting off after one made
  with it on neither cancels the pending task nor schedules one: the task of the first
  call stays pending.
\<close>

theorem paste_on_copy_disabled:
  "key_events (run sample_externals
     [PasteContent (sample_settings\<lparr>paste_on_copy := False\<rparr>) (TextContent ''first''),
      PasteContent (sample_settings\<lparr>paste_on_copy := False\<rparr>) (TextContent ''second''),
      Dispatch sample_settings 1, Dispatch sample_settings 2]) = [] \<and>
   sources (run sample_externals
     [PasteContent sample_settings (TextContent ''first''),
      PasteContent (sample_settings\<lparr>paste_on_copy := False\<rparr>) (TextContent ''second'')]) = [1]"
  by (simp add: run_def unchanged_on_error_def pasteContent_def copyContent_def timeout_add_def
      dispatch_def array_includes_def new_manager_def sample_externals_def sample_settings_def)

text \<open>
  Claim C9, amended. In every state the manager reaches, at most one paste task is
  pending, the one \<^verbatim>\<open>pasteSignalId\<close> names. Every paste request made while
  \<^verbatim>\<open>paste-on-copy\<close> is on cancels the task still pending before it schedules the
  new one, which is then the only one pending. Two paste requests with no dispatch
  between them, the first made with the setting on, produce exactly one keystroke
  sequence once the main loop has dispatched what they scheduled.
\<close>

theorem pending_paste_timer:
  "one_pending (run ext events) \<and>
   length (sources (run ext events)) \<le> 1 \<and>
   (paste_on_copy cfg \<and> pasteContent ext cfg content (run ext events) = Inr scheduled \<longrightarrow>
      sources scheduled = [Suc (last_source (run ext events))] \<and>
      pasteSignalId scheduled = int (Suc (last_source (run ext events)))) \<and>
   (paste_on_copy first_cfg \<and>
    pasteContent ext first_cfg first_content (run ext events) = Inr between \<and>
    pasteContent ext second_cfg second_content between = Inr final \<longrightarrow>
      key_events (dispatch_all fire_cfg (sources between @ sources final) final)
        = key_events (run ext events) @ paste_keys (purpose_terminal fire_cfg))"
proof (intro conjI impI)
  show "one_pending (run ext events)"
    by (rule one_pending_run)
  show "length (sources (run ext events)) \<le> 1"
    using one_pending_run by (rule one_pending_length)
  show "sources scheduled = [Suc (last_source (run ext events))]"
    "pasteSignalId scheduled = int (Suc (last_source (run ext events)))"
    if "paste_on_copy cfg \<and> pasteContent ext cfg content (run ext events) = Inr scheduled"
    using that pasteContent_enabled [of cfg "run ext events" ext content scheduled] one_pending_run
    by simp_all
  show "key_events (dispatch_all fire_cfg (sources between @ sources final) final)
        = key_events (run ext events) @ paste_keys (purpose_terminal fire_cfg)"
    if "paste_on_copy first_cfg \<and>
        pasteContent ext first_cfg first_content (run ext events) = Inr between \<and>
        pasteContent ext second_cfg second_content between = Inr final"
    using that one_pending_run [of ext events]
      two_pastes [where m = "run ext events" and ext = ext and first_cfg = first_cfg
        and first_content = first_content and between = between and second_cfg = second_cfg
        and second_content = second_content and final = final and fire_cfg = fire_cfg]
    by simp
qed

theorem pending_paste_timer_witness:
  "pasteContent sample_externals sample_settings (TextContent ''first'') (run sample_externals [])
     = Inr \<lparr>prevClipboard = Some (ContentType.Text, ''md5:first''),
        pasteSignalId = 1, sources = [1], last_source = 1,
        clipboard_writes = [Set_text CLIPBOARD ''first''], key_events = [],
        tracker_inserts = [], signals = [], logged = []\<rparr> \<and>
   pasteContent sample_externals sample_settings (TextContent ''second'') \<lparr>prevClipboard = Some (ContentType.Text, ''md5:first''),
        pasteSignalId = 1, sources = [1], last_source = 1,
        clipboard_writes = [Set_text CLIPBOARD ''first''], key_events = [],
        tracker_inserts = [], signals = [], logged = []\<rparr>
     = Inr \<lparr>prevClipboard = Some (ContentType.Text, ''md5:second''),
        pasteSignalId = 2, sources = [2], last_source = 2,
        clipboard_writes = [Set_text CLIPBOARD ''first'', Set_text CLIPBOARD ''second''],
        key_events = [], tracker_inserts = [], signals = [], logged = []\<rparr> \<and>
   key_events (dispatch_all sample_settings (sources \<lparr>prevClipboard = Some (ContentType.Text, ''md5:first''),
        pasteSignalId = 1, sources = [1], last_source = 1,
        clipboard_writes = [Set_text CLIPBOARD ''first''], key_events = [],
        tracker_inserts = [], signals = [], logged = []\<rparr> @ sources \<lparr>prevClipboard = Some (ContentType.Text, ''md5:second''),
        pasteSignalId = 2, sources = [2], last_source = 2,
        clipboard_writes = [Set_text CLIPBOARD ''first'', Set_text CLIPBOARD ''second''],
        key_events = [], tracker_inserts = [], signals = [], logged = []\<rparr>) \<lparr>prevClipboard = Some (ContentType.Text, ''md5:second''),
        pasteSignalId = 2, sources = [2], last_source = 2,
        clipboard_writes = [Set_text CLIPBOARD ''first'', Set_text CLIPBOARD ''second''],
        key_events = [], tracker_inserts = [], signals = [], logged = []\<rparr>)
     = [Press KEY_Control_L, Press KEY_v, Release KEY_v, Release KEY_Control_L]"
proof -
  have enabled: "paste_on_copy sample_settings"
    by (simp add: sample_settings_def)
  have first: "pasteContent sample_externals sample_settings (TextContent ''first'')
      (run sample_externals []) = Inr \<lparr>prevClipboard = Some (ContentType.Text, ''md5:first''),
        pasteSignalId = 1, sources = [1], last_source = 1,
        clipboard_writes = [Set_text CLIPBOARD ''first''], key_events = [],
        tracker_inserts = [], signals = [], logged = []\<rparr>"
    by (simp add: run_def pasteContent_def copyContent_def timeout_add_def new_manager_def
        sample_externals_def sample_settings_def)
  have second: "pasteContent sample_externals sample_settings (TextContent ''second'') \<lparr>prevClipboard = Some (ContentType.Text, ''md5:first''),
        pasteSignalId = 1, sources = [1], last_source = 1,
        clipboard_writes = [Set_text CLIPBOARD ''first''], key_events = [],
        tracker_inserts = [], signals = [], logged = []\<rparr>
     = Inr \<lparr>prevClipboard = Some (ContentType.Text, ''md5:second''),
        pasteSignalId = 2, sources = [2], last_source = 2,
        clipboard_writes = [Set_text CLIPBOARD ''first'', Set_text CLIPBOARD ''second''],
        key_events = [], tracker_inserts = [], signals = [], logged = []\<rparr>"
    by (simp add: pasteContent_def copyContent_def timeout_add_def source_remove_def
        sample_externals_def sample_settings_def)
  have start: "key_events (run sample_externals []) = []"
    by (simp add: run_def new_manager_def)
  have keys: "paste_keys (purpose_terminal sample_settings)
      = [Press KEY_Control_L, Press KEY_v, Release KEY_v, Release KEY_Control_L]"
    by (simp add: paste_keys_def sample_settings_def)
  have "key_events (dispatch_all sample_settings (sources \<lparr>prevClipboard = Some (ContentType.Text, ''md5:first''),
        pasteSignalId = 1, sources = [1], last_source = 1,
        clipboard_writes = [Set_text CLIPBOARD ''first''], key_events = [],
        tracker_inserts = [], signals = [], logged = []\<rparr> @ sources \<lparr>prevClipboard = Some (ContentType.Text, ''md5:second''),
        pasteSignalId = 2, sources = [2], last_source = 2,
        clipboard_writes = [Set_text CLIPBOARD ''first'', Set_text CLIPBOARD ''second''],
        key_events = [], tracker_inserts = [], signals = [], logged = []\<rparr>) \<lparr>prevClipboard = Some (ContentType.Text, ''md5:second''),
        pasteSignalId = 2, sources = [2], last_source = 2,
        clipboard_writes = [Set_text CLIPBOARD ''first'', Set_text CLIPBOARD ''second''],
        key_events = [], tracker_inserts = [], signals = [], logged = []\<rparr>)
      = key_events (run sample_externals []) @ paste_keys (purpose_terminal sample_settings)"
    using pending_paste_timer [where ext = sample_externals and events = "[]"
        and first_cfg = sample_settings and first_content = "TextContent ''first''"
        and between = "\<lparr>prevClipboard = Some (ContentType.Text, ''md5:first''),
        pasteSignalId = 1, sources = [1], last_source = 1,
        clipboard_writes = [Set_text CLIPBOARD ''first''], key_events = [],
        tracker_inserts = [], signals = [], logged = []\<rparr>" and second_cfg = sample_settings
        and second_content = "TextContent ''second''" and final = "\<lparr>prevClipboard = Some (ContentType.Text, ''md5:second''),
        pasteSignalId = 2, sources = [2], last_source = 2,
        clipboard_writes = [Set_text CLIPBOARD ''first'', Set_text CLIPBOARD ''second''],
        key_events = [], tracker_inserts = [], signals = [], logged = []\<rparr>"
        and fire_cfg = sample_settings,
        THEN conjunct2, THEN conjunct2, THEN conjunct2, THEN mp,
        OF conjI [OF enabled conjI [OF first second]]]
    by simp
  then show ?thesis
    using first second start keys by simp
qed

end
